theory Spec2Isabelle
  imports Complex_Main "HOL-Library.Option_ord"
begin

section \<open>Personal finance tracker: the ledger and its reports\<close>

text \<open>
  A shallow embedding of \<^verbatim>\<open>src/finance_tracker.py\<close>. The SQLite file is an explicit
  store value that every method takes and, when it writes, returns. The wall clock
  (\<^verbatim>\<open>datetime.now()\<close>) is the explicit argument \<open>today\<close>. Amounts are SQL
  \<^verbatim>\<open>REAL\<close> columns and Python floats. A stored amount is a real number, and the
  rounding of a finite result to 53 bits is outside this development. The monthly
  summary is modelled with the overflow of a sum or a result to an infinity, with the
  \<^verbatim>\<open>nan\<close> that two infinities give, and with what the engine and Python make of
  a \<^verbatim>\<open>nan\<close>. The category and budget reports are modelled with exact sums, which
  is what they compute as long as no sum overflows. SQL \<^verbatim>\<open>NULL\<close> and Python
  \<^verbatim>\<open>None\<close> are \<open>None\<close>. Console output is not modelled.
\<close>

subsection \<open>Errors\<close>

datatype error = IntegrityError | OverflowError | ZeroDivisionError | KeyError | TypeError

definition bind_err :: "error + 'a \<Rightarrow> ('a \<Rightarrow> error + 'b) \<Rightarrow> error + 'b" where
  "bind_err m f = (case m of Inl e \<Rightarrow> Inl e | Inr x \<Rightarrow> f x)"

text \<open>Python's \<^verbatim>\<open>/\<close> on numbers raises on a zero divisor.\<close>

definition py_truediv :: "real \<Rightarrow> real \<Rightarrow> error + real" where
  "py_truediv a b = (if b = 0 then Inl ZeroDivisionError else Inr (a / b))"

text \<open>Python's \<^verbatim>\<open>d[k]\<close> raises on a missing key.\<close>

definition dict_get :: "('k \<rightharpoonup> 'v) \<Rightarrow> 'k \<Rightarrow> error + 'v" where
  "dict_get m k = (case m k of None \<Rightarrow> Inl KeyError | Some v \<Rightarrow> Inr v)"

subsection \<open>Floating-point values\<close>

text \<open>
  A double as Python and SQLite compute with it: a finite number, one of the two
  infinities, or \<^verbatim>\<open>nan\<close>. A finite result at or beyond the rounding threshold of the
  format, \<open>2 ^ 1024 - 2 ^ 970\<close>, becomes an infinity; below it the result is kept
  exact. The two zeros are one.
\<close>

datatype pyfloat = Fin real | PInf | MInf | NaN

definition dbl_threshold :: real where
  "dbl_threshold = 2 ^ 1024 - 2 ^ 970"

definition dbl_round :: "real \<Rightarrow> pyfloat" where
  "dbl_round x =
     (if x \<le> - dbl_threshold then MInf else if dbl_threshold \<le> x then PInf else Fin x)"

fun float_neg :: "pyfloat \<Rightarrow> pyfloat" where
  "float_neg (Fin x) = Fin (- x)"
| "float_neg PInf = MInf"
| "float_neg MInf = PInf"
| "float_neg NaN = NaN"

fun float_add :: "pyfloat \<Rightarrow> pyfloat \<Rightarrow> pyfloat" where
  "float_add NaN b = NaN"
| "float_add a NaN = NaN"
| "float_add (Fin x) (Fin y) = dbl_round (x + y)"
| "float_add PInf MInf = NaN"
| "float_add MInf PInf = NaN"
| "float_add PInf b = PInf"
| "float_add a PInf = PInf"
| "float_add MInf b = MInf"
| "float_add a MInf = MInf"

definition float_sub :: "pyfloat \<Rightarrow> pyfloat \<Rightarrow> pyfloat" where
  "float_sub a b = float_add a (float_neg b)"

fun float_mul :: "pyfloat \<Rightarrow> pyfloat \<Rightarrow> pyfloat" where
  "float_mul NaN b = NaN"
| "float_mul a NaN = NaN"
| "float_mul (Fin x) (Fin y) = dbl_round (x * y)"
| "float_mul (Fin x) b = (if x = 0 then NaN else if 0 < x then b else float_neg b)"
| "float_mul a (Fin y) = (if y = 0 then NaN else if 0 < y then a else float_neg a)"
| "float_mul PInf b = b"
| "float_mul MInf b = float_neg b"

text \<open>Python's \<^verbatim>\<open>>\<close> and \<^verbatim>\<open>==\<close> on floats: every comparison with \<^verbatim>\<open>nan\<close> is false.\<close>

fun float_gt :: "pyfloat \<Rightarrow> pyfloat \<Rightarrow> bool" where
  "float_gt NaN b = False"
| "float_gt a NaN = False"
| "float_gt (Fin x) (Fin y) = (y < x)"
| "float_gt a PInf = False"
| "float_gt PInf b = True"
| "float_gt MInf b = False"
| "float_gt a MInf = True"

fun float_eq :: "pyfloat \<Rightarrow> pyfloat \<Rightarrow> bool" where
  "float_eq NaN b = False"
| "float_eq a NaN = False"
| "float_eq a b = (a = b)"

text \<open>
  Python's \<^verbatim>\<open>/\<close> on floats looks at the divisor first and raises on a zero, whatever
  the dividend is.
\<close>

fun float_truediv :: "pyfloat \<Rightarrow> pyfloat \<Rightarrow> error + pyfloat" where
  "float_truediv a (Fin y) =
     (if y = 0 then Inl ZeroDivisionError
      else case a of
             Fin x \<Rightarrow> Inr (dbl_round (x / y))
           | PInf \<Rightarrow> Inr (if 0 < y then PInf else MInf)
           | MInf \<Rightarrow> Inr (if 0 < y then MInf else PInf)
           | NaN \<Rightarrow> Inr NaN)"
| "float_truediv NaN b = Inr NaN"
| "float_truediv a NaN = Inr NaN"
| "float_truediv (Fin x) b = Inr (Fin 0)"
| "float_truediv a b = Inr NaN"

text \<open>
  A value of the summary is a Python number or \<^verbatim>\<open>None\<close>; arithmetic and ordering
  with \<^verbatim>\<open>None\<close> raise \<^verbatim>\<open>TypeError\<close>. The left operand is looked at first.
\<close>

definition py_num :: "pyfloat option \<Rightarrow> error + pyfloat" where
  "py_num v = (case v of None \<Rightarrow> Inl TypeError | Some x \<Rightarrow> Inr x)"

definition py_sub :: "pyfloat option \<Rightarrow> pyfloat option \<Rightarrow> error + pyfloat option" where
  "py_sub a b =
     bind_err (py_num a) (\<lambda>x. bind_err (py_num b) (\<lambda>y. Inr (Some (float_sub x y))))"

definition py_mul :: "pyfloat option \<Rightarrow> pyfloat option \<Rightarrow> error + pyfloat option" where
  "py_mul a b =
     bind_err (py_num a) (\<lambda>x. bind_err (py_num b) (\<lambda>y. Inr (Some (float_mul x y))))"

definition py_div :: "pyfloat option \<Rightarrow> pyfloat option \<Rightarrow> error + pyfloat option" where
  "py_div a b =
     bind_err (py_num a) (\<lambda>x. bind_err (py_num b) (\<lambda>y.
       bind_err (float_truediv x y) (\<lambda>q. Inr (Some q))))"

definition py_gt :: "pyfloat option \<Rightarrow> pyfloat option \<Rightarrow> error + bool" where
  "py_gt a b =
     bind_err (py_num a) (\<lambda>x. bind_err (py_num b) (\<lambda>y. Inr (float_gt x y)))"

text \<open>
  \<^verbatim>\<open>SUM\<close> over a \<^verbatim>\<open>REAL\<close> column that has no \<^verbatim>\<open>NULL\<close>: a running double
  sum from 0 over the rows in table order, each stored amount read as a double (an
  amount at or beyond the threshold is an infinity, as a stored
  \<^verbatim>\<open>float('inf')\<close> is). SQLite has no \<^verbatim>\<open>nan\<close>: a \<^verbatim>\<open>nan\<close> result is
  \<^verbatim>\<open>NULL\<close>.
\<close>

definition dbl_sum :: "real list \<Rightarrow> pyfloat" where
  "dbl_sum xs = fold (\<lambda>x acc. float_add acc (dbl_round x)) xs (Fin 0)"

definition sql_double :: "pyfloat \<Rightarrow> pyfloat option" where
  "sql_double v = (case v of NaN \<Rightarrow> None | _ \<Rightarrow> Some v)"

subsection \<open>Calendar dates\<close>

text \<open>
  A \<^verbatim>\<open>datetime.date\<close>. The sqlite3 module stores it as the text
  \<^verbatim>\<open>YYYY-MM-DD\<close>, and SQL compares such texts bytewise; with four-digit years that
  is the lexicographic order on (year, month, day), which is \<open>date_le\<close>.
\<close>

record date =
  year :: nat
  month :: nat
  day :: nat

definition date_le :: "date \<Rightarrow> date \<Rightarrow> bool" where
  "date_le a b \<longleftrightarrow>
     year a < year b \<or>
     (year a = year b \<and> (month a < month b \<or> (month a = month b \<and> day a \<le> day b)))"

definition date_less :: "date \<Rightarrow> date \<Rightarrow> bool" where
  "date_less a b \<longleftrightarrow>
     year a < year b \<or>
     (year a = year b \<and> (month a < month b \<or> (month a = month b \<and> day a < day b)))"

definition is_leap :: "nat \<Rightarrow> bool" where
  "is_leap y \<longleftrightarrow> y mod 4 = 0 \<and> (y mod 100 \<noteq> 0 \<or> y mod 400 = 0)"

definition days_in_month :: "nat \<Rightarrow> nat \<Rightarrow> nat" where
  "days_in_month y m =
     (if m = 2 then (if is_leap y then 29 else 28)
      else if m = 4 \<or> m = 6 \<or> m = 9 \<or> m = 11 then 30 else 31)"

definition valid_date :: "date \<Rightarrow> bool" where
  "valid_date d \<longleftrightarrow>
     1 \<le> year d \<and> year d \<le> 9999 \<and> 1 \<le> month d \<and> month d \<le> 12 \<and>
     1 \<le> day d \<and> day d \<le> days_in_month (year d) (month d)"

text \<open>\<^verbatim>\<open>strftime('%Y-%m', ...)\<close>: the year and month of a date.\<close>

definition year_month :: "date \<Rightarrow> nat \<times> nat" where
  "year_month d = (year d, month d)"

text \<open>\<^verbatim>\<open>datetime.now().replace(day=1).date()\<close>\<close>

definition month_start_of :: "date \<Rightarrow> date" where
  "month_start_of d = d\<lparr>day := 1\<rparr>"

text \<open>
  \<^verbatim>\<open>date - timedelta(days=n)\<close>, one day at a time. \<^verbatim>\<open>timedelta\<close> refuses more
  than 999999999 days, and a date outside the years 1 to 9999 does not exist; Python
  raises \<^verbatim>\<open>OverflowError\<close> for both.
\<close>

definition prev_day :: "date \<Rightarrow> date option" where
  "prev_day d =
     (if 1 < day d then Some (d\<lparr>day := day d - 1\<rparr>)
      else if 1 < month d then
        Some (d\<lparr>month := month d - 1, day := days_in_month (year d) (month d - 1)\<rparr>)
      else if 1 < year d then Some \<lparr>year = year d - 1, month = 12, day = 31\<rparr>
      else None)"

definition next_day :: "date \<Rightarrow> date option" where
  "next_day d =
     (if day d < days_in_month (year d) (month d) then Some (d\<lparr>day := day d + 1\<rparr>)
      else if month d < 12 then Some (d\<lparr>month := month d + 1, day := 1\<rparr>)
      else if year d < 9999 then Some \<lparr>year = year d + 1, month = 1, day = 1\<rparr>
      else None)"

fun iterate_day :: "(date \<Rightarrow> date option) \<Rightarrow> nat \<Rightarrow> date \<Rightarrow> date option" where
  "iterate_day step 0 d = Some d"
| "iterate_day step (Suc n) d =
     (case step d of None \<Rightarrow> None | Some d' \<Rightarrow> iterate_day step n d')"

definition date_minus_days :: "date \<Rightarrow> int \<Rightarrow> error + date" where
  "date_minus_days d n =
     (if 999999999 < \<bar>n\<bar> then Inl OverflowError
      else case (if 0 \<le> n then iterate_day prev_day (nat n) d
                 else iterate_day next_day (nat (- n)) d) of
             None \<Rightarrow> Inl OverflowError
           | Some d' \<Rightarrow> Inr d')"

subsection \<open>The persisted tables\<close>

text \<open>
  Table \<^verbatim>\<open>transactions\<close>: \<^verbatim>\<open>amount\<close>, \<^verbatim>\<open>category\<close> and \<^verbatim>\<open>date\<close> are
  \<^verbatim>\<open>NOT NULL\<close>; \<^verbatim>\<open>description\<close> and \<^verbatim>\<open>type\<close> are nullable. The column
  \<^verbatim>\<open>created_at\<close> is stamped by the engine and read by no query; it is left out.
  An amount is what a Python float leaves in a \<^verbatim>\<open>REAL\<close> column; Python ints,
  which the binding refuses with \<^verbatim>\<open>OverflowError\<close> beyond 64 bits, are not told
  apart from floats.
\<close>

record txn =
  t_id :: nat
  t_amount :: real
  t_category :: string
  t_description :: "string option"
  t_type :: "string option"
  t_date :: date

text \<open>Table \<^verbatim>\<open>categories\<close>: \<^verbatim>\<open>name\<close> is \<^verbatim>\<open>UNIQUE NOT NULL\<close>.\<close>

record category =
  c_id :: nat
  c_name :: string
  c_type :: "string option"
  c_budget_limit :: real

record db =
  transactions :: "txn list"
  categories :: "category list"

text \<open>
  A fresh database file. \<^verbatim>\<open>CREATE TABLE IF NOT EXISTS\<close> turns a missing table into
  an empty one and leaves an existing one alone, so a missing table and an empty one
  are the same state here.
\<close>

definition empty_db :: db where
  "empty_db = \<lparr>transactions = [], categories = []\<rparr>"

text \<open>\<^verbatim>\<open>INTEGER PRIMARY KEY AUTOINCREMENT\<close>: one more than the largest id so far.\<close>

definition next_id :: "nat list \<Rightarrow> nat" where
  "next_id ids = Suc (foldr max ids 0)"

text \<open>
  \<^verbatim>\<open>CHECK(type IN ('income', 'expense'))\<close>. A \<^verbatim>\<open>CHECK\<close> constraint is violated
  only when its expression is false; on \<^verbatim>\<open>NULL\<close> the expression is \<^verbatim>\<open>NULL\<close>, and
  the row is accepted.
\<close>

definition check_type :: "string option \<Rightarrow> bool" where
  "check_type ty = (case ty of None \<Rightarrow> True | Some s \<Rightarrow> s = ''income'' \<or> s = ''expense'')"

subsection \<open>\<^verbatim>\<open>setup_database\<close>\<close>

definition default_categories :: "(string \<times> string \<times> real) list" where
  "default_categories =
     [(''Salary'', ''income'', 0),
      (''Freelance'', ''income'', 0),
      (''Food'', ''expense'', 500),
      (''Transport'', ''expense'', 200),
      (''Entertainment'', ''expense'', 150),
      (''Utilities'', ''expense'', 300),
      (''Shopping'', ''expense'', 400),
      (''Healthcare'', ''expense'', 200),
      (''Rent'', ''expense'', 1200)]"

text \<open>
  \<^verbatim>\<open>INSERT OR IGNORE INTO categories (name, type, budget_limit) VALUES (?, ?, ?)\<close>:
  a row that would break a constraint of the table is skipped and nothing is raised.
\<close>

definition insert_or_ignore_category :: "string \<times> string \<times> real \<Rightarrow> db \<Rightarrow> db" where
  "insert_or_ignore_category row d =
     (case row of (nm, ty, lim_b) \<Rightarrow>
        if nm \<in> set (map c_name (categories d)) \<or> \<not> check_type (Some ty) then d
        else d\<lparr>categories := categories d @
               [\<lparr>c_id = next_id (map c_id (categories d)), c_name = nm,
                 c_type = Some ty, c_budget_limit = lim_b\<rparr>]\<rparr>)"

definition setup_database :: "db \<Rightarrow> db" where
  "setup_database d = fold insert_or_ignore_category default_categories d"

subsection \<open>\<^verbatim>\<open>add_transaction\<close>\<close>

text \<open>
  \<^verbatim>\<open>INSERT INTO transactions (amount, category, description, type, date)\<close>: the
  engine raises \<^verbatim>\<open>IntegrityError\<close> on a \<^verbatim>\<open>NOT NULL\<close> or \<^verbatim>\<open>CHECK\<close> violation.
\<close>

definition insert_transaction ::
  "db \<Rightarrow> real option \<Rightarrow> string option \<Rightarrow> string option \<Rightarrow> string option \<Rightarrow> date option
     \<Rightarrow> error + db" where
  "insert_transaction d amount cat description ty dt =
     (case (amount, cat, dt) of
        (Some a, Some c, Some dt') \<Rightarrow>
          if check_type ty then
            Inr (d\<lparr>transactions := transactions d @
                   [\<lparr>t_id = next_id (map t_id (transactions d)), t_amount = a,
                     t_category = c, t_description = description, t_type = ty,
                     t_date = dt'\<rparr>]\<rparr>)
          else Inl IntegrityError
      | _ \<Rightarrow> Inl IntegrityError)"

text \<open>
  The method returns the store as it is afterwards, and either \<^verbatim>\<open>True\<close> or the
  exception that left it. An exception of \<^verbatim>\<open>cursor.execute\<close> leaves before
  \<^verbatim>\<open>conn.commit()\<close>, so the store is the one the call started with. Every
  argument may be \<^verbatim>\<open>None\<close>; the defaults of the signature (an empty description,
  the kind \<^verbatim>\<open>expense\<close>) are what a caller passes when it leaves them out. The method
  checks nothing itself: every rejection is the engine's.
\<close>

definition add_transaction ::
  "db \<Rightarrow> date \<Rightarrow> real option \<Rightarrow> string option \<Rightarrow> string option \<Rightarrow> string option
     \<Rightarrow> date option \<Rightarrow> db \<times> (error + bool)" where
  "add_transaction d today amount cat description trans_type dt =
     (let dt' = (case dt of None \<Rightarrow> today | Some x \<Rightarrow> x) in
      case insert_transaction d amount cat description trans_type (Some dt') of
        Inl e \<Rightarrow> (d, Inl e)
      | Inr d' \<Rightarrow> (d', Inr True))"

subsection \<open>\<^verbatim>\<open>get_monthly_summary\<close>\<close>

text \<open>
  \<^verbatim>\<open>SELECT type, SUM(amount), COUNT(*) FROM transactions
  WHERE strftime('%Y-%m', date) = ? GROUP BY type\<close>.
  \<^verbatim>\<open>GROUP BY\<close> puts all \<^verbatim>\<open>NULL\<close> types into one group. SQL does not fix the order
  of the groups; the model lists them by \<open>remdups\<close>.
\<close>

definition query_monthly_totals ::
  "db \<Rightarrow> nat \<times> nat \<Rightarrow> (string option \<times> pyfloat option \<times> nat) list" where
  "query_monthly_totals d ym =
     (let rows = filter (\<lambda>t. year_month (t_date t) = ym) (transactions d) in
      map (\<lambda>k. (k, sql_double (dbl_sum (map t_amount (filter (\<lambda>t. t_type t = k) rows))),
                 length (filter (\<lambda>t. t_type t = k) rows)))
        (remdups (map t_type rows)))"

text \<open>
  The summary is a Python dict; its keys are the strings the method writes and
  whatever \<^verbatim>\<open>type\<close> values the query returned (\<^verbatim>\<open>None\<close> among them). Its
  values are the numbers the method writes and the sums the query returned, a
  \<^verbatim>\<open>NULL\<close> sum being \<^verbatim>\<open>None\<close>.
\<close>

type_synonym summary = "string option \<rightharpoonup> pyfloat option"

definition summary_init :: summary where
  "summary_init = [Some ''income'' \<mapsto> Some (Fin 0), Some ''expense'' \<mapsto> Some (Fin 0)]"

definition summary_store ::
  "string option \<times> pyfloat option \<times> nat \<Rightarrow> summary \<Rightarrow> summary" where
  "summary_store row s = (case row of (trans_type, tot, cnt) \<Rightarrow> s(trans_type \<mapsto> tot))"

definition get_monthly_summary :: "db \<Rightarrow> date \<Rightarrow> error + summary" where
  "get_monthly_summary d today =
     (let results = query_monthly_totals d (year_month today);
          s1 = fold summary_store results summary_init
      in bind_err (dict_get s1 (Some ''income'')) (\<lambda>inc.
         bind_err (dict_get s1 (Some ''expense'')) (\<lambda>expn.
         bind_err (py_sub inc expn) (\<lambda>bal.
         let s2 = s1(Some ''balance'' \<mapsto> bal) in
         bind_err (dict_get s2 (Some ''income'')) (\<lambda>inc'.
         bind_err (py_gt inc' (Some (Fin 0))) (\<lambda>positive.
         bind_err (if positive then
                     bind_err (dict_get s2 (Some ''balance'')) (\<lambda>bal'.
                     bind_err (dict_get s2 (Some ''income'')) (\<lambda>inc''.
                     bind_err (py_div bal' inc'') (\<lambda>q. py_mul q (Some (Fin 100)))))
                   else Inr (Some (Fin 0))) (\<lambda>rate.
         Inr (s2(Some ''savings_rate'' \<mapsto> rate)))))))))"

subsection \<open>\<^verbatim>\<open>get_category_spending\<close>\<close>

text \<open>
  \<^verbatim>\<open>ORDER BY ... DESC\<close>: a stable insertion sort by descending key. SQL leaves the
  order of rows with equal keys open; the model fixes one.
\<close>

fun insert_desc :: "('a \<Rightarrow> 'k::linorder) \<Rightarrow> 'a \<Rightarrow> 'a list \<Rightarrow> 'a list" where
  "insert_desc f x [] = [x]"
| "insert_desc f x (y # ys) = (if f y \<le> f x then x # y # ys else y # insert_desc f x ys)"

definition order_by_desc :: "('a \<Rightarrow> 'k::linorder) \<Rightarrow> 'a list \<Rightarrow> 'a list" where
  "order_by_desc f xs = foldr (insert_desc f) xs []"

text \<open>
  \<^verbatim>\<open>SELECT category, SUM(amount) as total, COUNT(*) FROM transactions
  WHERE type = 'expense' AND date >= ? GROUP BY category ORDER BY total DESC\<close>
\<close>

definition spending_filter :: "date \<Rightarrow> txn \<Rightarrow> bool" where
  "spending_filter since t \<longleftrightarrow> t_type t = Some ''expense'' \<and> date_le since (t_date t)"

definition query_category_spending :: "db \<Rightarrow> date \<Rightarrow> (string \<times> real \<times> nat) list" where
  "query_category_spending d since =
     (let rows = filter (spending_filter since) (transactions d) in
      order_by_desc (\<lambda>(c, tot, n). tot)
        (map (\<lambda>k. (k, sum_list (map t_amount (filter (\<lambda>t. t_category t = k) rows)),
                   length (filter (\<lambda>t. t_category t = k) rows)))
           (remdups (map t_category rows))))"

definition get_category_spending :: "db \<Rightarrow> date \<Rightarrow> int \<Rightarrow> error + (string \<times> real \<times> nat) list" where
  "get_category_spending d today days =
     bind_err (date_minus_days today days) (\<lambda>start_date.
       Inr (query_category_spending d start_date))"

subsection \<open>\<^verbatim>\<open>check_budgets\<close>\<close>

text \<open>SQL aggregates and operators on nullable numbers.\<close>

definition sql_sum :: "real option list \<Rightarrow> real option" where
  "sql_sum vs =
     (case List.map_filter (\<lambda>v. v) vs of [] \<Rightarrow> None | x # xs \<Rightarrow> Some (sum_list (x # xs)))"

definition coalesce :: "real option \<Rightarrow> real \<Rightarrow> real" where
  "coalesce v dflt = (case v of None \<Rightarrow> dflt | Some x \<Rightarrow> x)"

text \<open>SQL division by zero is \<^verbatim>\<open>NULL\<close>, which sorts below every number.\<close>

definition sql_div :: "real \<Rightarrow> real \<Rightarrow> real option" where
  "sql_div a b = (if b = 0 then None else Some (a / b))"

text \<open>
  \<^verbatim>\<open>FROM categories c LEFT JOIN transactions t ON c.name = t.category
  AND t.type = 'expense' AND t.date >= ?\<close>: every category with each of its matching
  transactions, or once with a \<^verbatim>\<open>NULL\<close> transaction when it has none.
\<close>

definition join_on :: "date \<Rightarrow> category \<Rightarrow> txn \<Rightarrow> bool" where
  "join_on since c t \<longleftrightarrow>
     c_name c = t_category t \<and> t_type t = Some ''expense'' \<and> date_le since (t_date t)"

definition join_rows :: "db \<Rightarrow> date \<Rightarrow> category \<Rightarrow> (category \<times> txn option) list" where
  "join_rows d since c =
     (let ms = filter (join_on since c) (transactions d) in
      if ms = [] then [(c, None)] else map (\<lambda>t. (c, Some t)) ms)"

definition left_join :: "db \<Rightarrow> date \<Rightarrow> (category \<times> txn option) list" where
  "left_join d since = concat (map (join_rows d since) (categories d))"

definition group_key :: "category \<times> txn option \<Rightarrow> string \<times> real" where
  "group_key r = (c_name (fst r), c_budget_limit (fst r))"

text \<open>
  \<^verbatim>\<open>SELECT c.name, c.budget_limit, COALESCE(SUM(t.amount), 0) as spent ...
  WHERE c.type = 'expense' AND c.budget_limit > 0 GROUP BY c.name, c.budget_limit
  ORDER BY (COALESCE(SUM(t.amount), 0) / c.budget_limit) DESC\<close>
\<close>

definition query_budget_usage :: "db \<Rightarrow> date \<Rightarrow> (string \<times> real \<times> real) list" where
  "query_budget_usage d since =
     (let rows = filter (\<lambda>r. c_type (fst r) = Some ''expense'' \<and> 0 < c_budget_limit (fst r))
                   (left_join d since)
      in order_by_desc (\<lambda>(nm, lim_b, sp). sql_div sp lim_b)
           (map (\<lambda>k. (fst k, snd k,
                      coalesce (sql_sum (map (\<lambda>r. map_option t_amount (snd r))
                                           (filter (\<lambda>r. group_key r = k) rows))) 0))
              (remdups (map group_key rows))))"

record budget_row =
  category :: string
  budget :: real
  spent :: real
  percentage :: real
  status :: string

fun budget_loop :: "(string \<times> real \<times> real) list \<Rightarrow> error + budget_row list" where
  "budget_loop [] = Inr []"
| "budget_loop ((cat, bud, sp) # rest) =
     bind_err (if 0 < bud then bind_err (py_truediv sp bud) (\<lambda>q. Inr (q * 100)) else Inr 0)
       (\<lambda>pct.
          let st = (if 100 < pct then ''OVER BUDGET''
                    else if 80 < pct then ''NEAR LIMIT'' else ''OK'')
          in bind_err (budget_loop rest) (\<lambda>rs.
               Inr (\<lparr>category = cat, budget = bud, spent = sp, percentage = pct,
                     status = st\<rparr> # rs)))"

definition check_budgets :: "db \<Rightarrow> date \<Rightarrow> error + budget_row list" where
  "check_budgets d today = budget_loop (query_budget_usage d (month_start_of today))"

subsection \<open>What the reports are compared with\<close>

text \<open>
  The current-month transactions of one kind, in table order, and their total as the
  engine adds it up.
\<close>

definition month_rows :: "db \<Rightarrow> date \<Rightarrow> string \<Rightarrow> txn list" where
  "month_rows d today k =
     filter (\<lambda>t. year_month (t_date t) = year_month today \<and> t_type t = Some k)
       (transactions d)"

definition month_sum :: "db \<Rightarrow> date \<Rightarrow> string \<Rightarrow> pyfloat" where
  "month_sum d today k = dbl_sum (map t_amount (month_rows d today k))"

text \<open>
  The current-month total of one kind as an exact number: the sum of the amounts of
  the transactions of that kind dated in the month of \<open>today\<close>.
\<close>

definition month_total :: "db \<Rightarrow> date \<Rightarrow> string \<Rightarrow> real" where
  "month_total d today k =
     sum_list (map t_amount
       (filter (\<lambda>t. year_month (t_date t) = year_month today \<and> t_type t = Some k)
          (transactions d)))"

text \<open>
  The transactions that the row of category \<open>c\<close> may aggregate, in the words of the
  specification: the expenses of that category that are not dated strictly before
  \<open>since\<close>.
\<close>

definition spending_rows :: "db \<Rightarrow> date \<Rightarrow> string \<Rightarrow> txn list" where
  "spending_rows d since c =
     filter (\<lambda>t. t_category t = c \<and> t_type t = Some ''expense'' \<and> \<not> date_less (t_date t) since)
       (transactions d)"

text \<open>The categories that pass \<^verbatim>\<open>WHERE c.type = 'expense' AND c.budget_limit > 0\<close>.\<close>

definition budgeted :: "db \<Rightarrow> category list" where
  "budgeted d =
     filter (\<lambda>c. c_type c = Some ''expense'' \<and> 0 < c_budget_limit c) (categories d)"

text \<open>What a category has spent since a date: the amounts of its joined transactions.\<close>

definition budget_spent :: "db \<Rightarrow> date \<Rightarrow> category \<Rightarrow> real" where
  "budget_spent d since c = sum_list (map t_amount (filter (join_on since c) (transactions d)))"

text \<open>One pass of the loop of \<^verbatim>\<open>check_budgets\<close>, as a function of the result row.\<close>

definition budget_row_of :: "string \<times> real \<times> real \<Rightarrow> budget_row" where
  "budget_row_of r =
     (case r of (cat, bud, sp) \<Rightarrow>
        let pct = (if 0 < bud then sp / bud * 100 else 0) in
        \<lparr>category = cat, budget = bud, spent = sp, percentage = pct,
         status = (if 100 < pct then ''OVER BUDGET''
                   else if 80 < pct then ''NEAR LIMIT'' else ''OK'')\<rparr>)"

text \<open>
  The \<^verbatim>\<open>savings_rate\<close> that \<^verbatim>\<open>get_monthly_summary\<close> stores, as a function of
  the income and the balance it has stored.
\<close>

definition savings_of :: "pyfloat \<Rightarrow> pyfloat \<Rightarrow> pyfloat" where
  "savings_of inc bal =
     (if float_gt inc (Fin 0)
      then (case float_truediv bal inc of Inr q \<Rightarrow> float_mul q (Fin 100) | Inl e \<Rightarrow> NaN)
      else Fin 0)"

subsection \<open>Sample stores\<close>

text \<open>
  Stores built by the operations themselves, for the worked instances below. The day
  is 2024-06-15; thirty days earlier is 2024-05-16.
\<close>

definition demo_today :: date where
  "demo_today = \<lparr>year = 2024, month = 6, day = 15\<rparr>"

definition demo_db :: db where
  "demo_db =
     fst (add_transaction
            (fst (add_transaction (setup_database empty_db) demo_today
                    (Some 1000) (Some ''Salary'') (Some ''Monthly salary'') (Some ''income'') None))
            demo_today (Some 400) (Some ''Rent'') None (Some ''expense'') None)"

definition spender_db :: db where
  "spender_db =
     fst (add_transaction (setup_database empty_db) demo_today
            (Some 400) (Some ''Rent'') None (Some ''expense'') None)"

definition window_db :: db where
  "window_db =
     fst (add_transaction
       (fst (add_transaction
         (fst (add_transaction
           (fst (add_transaction (setup_database empty_db) demo_today
                   (Some 3000) (Some ''Salary'') None (Some ''income'') None))
           demo_today (Some 50) (Some ''Food'') None (Some ''expense'')
           (Some \<lparr>year = 2024, month = 5, day = 6\<rparr>)))
         demo_today (Some 60) (Some ''Transport'') None (Some ''expense'')
         (Some \<lparr>year = 2024, month = 5, day = 16\<rparr>)))
       demo_today (Some 80) (Some ''Food'') None (Some ''expense'') None)"

definition status_db :: db where
  "status_db =
     fst (add_transaction
       (fst (add_transaction
         (fst (add_transaction (setup_database empty_db) demo_today
                 (Some 600) (Some ''Food'') None (Some ''expense'') None))
         demo_today (Some 180) (Some ''Transport'') None (Some ''expense'') None))
       demo_today (Some 600) (Some ''Rent'') None (Some ''expense'') None)"

definition pets_txn :: txn where
  "pets_txn =
     \<lparr>t_id = 1, t_amount = 50, t_category = ''Pets'', t_description = None,
      t_type = Some ''expense'', t_date = demo_today\<rparr>"

definition pets_db :: db where
  "pets_db =
     fst (add_transaction (setup_database empty_db) demo_today
            (Some 50) (Some ''Pets'') None (Some ''expense'') None)"

text \<open>An amount that is a double, twice which is not; and one that is read as infinity.\<close>

definition big_amount :: real where
  "big_amount = 10 ^ 308"

definition inf_amount :: real where
  "inf_amount = 2 ^ 1024"

definition overflow_db :: db where
  "overflow_db =
     fst (add_transaction
       (fst (add_transaction
         (fst (add_transaction
           (fst (add_transaction (setup_database empty_db) demo_today
                   (Some big_amount) (Some ''Salary'') None (Some ''income'') None))
           demo_today (Some big_amount) (Some ''Freelance'') None (Some ''income'') None))
         demo_today (Some big_amount) (Some ''Rent'') None (Some ''expense'') None))
       demo_today (Some big_amount) (Some ''Shopping'') None (Some ''expense'') None)"

definition rich_db :: db where
  "rich_db =
     fst (add_transaction
       (fst (add_transaction (setup_database empty_db) demo_today
               (Some big_amount) (Some ''Salary'') None (Some ''income'') None))
       demo_today (Some big_amount) (Some ''Freelance'') None (Some ''income'') None)"

definition nan_db :: db where
  "nan_db =
     fst (add_transaction
       (fst (add_transaction (setup_database empty_db) demo_today
               (Some inf_amount) (Some ''Salary'') None (Some ''income'') None))
       demo_today (Some (- inf_amount)) (Some ''Salary'') None (Some ''income'') None)"

section \<open>Properties\<close>

subsection \<open>Auxiliary facts\<close>

lemma bind_err_Inr [simp]: "bind_err (Inr x) f = f x"
  by (simp add: bind_err_def)

lemma bind_err_Inl [simp]: "bind_err (Inl e) f = Inl e"
  by (simp add: bind_err_def)

lemma set_order_by_desc [simp]: "set (order_by_desc f xs) = set xs"
proof (induction xs)
  case Nil
  show ?case by (simp add: order_by_desc_def)
next
  case (Cons x xs)
  have ins: "set (insert_desc f y ys) = insert y (set ys)" for y ys
    by (induction ys) auto
  from Cons show ?case by (simp add: order_by_desc_def ins)
qed

lemma sorted_order_by_desc: "sorted_wrt (\<lambda>a b. f b \<le> f a) (order_by_desc f xs)"
proof (induction xs)
  case Nil
  show ?case by (simp add: order_by_desc_def)
next
  case (Cons x xs)
  have ins: "sorted_wrt (\<lambda>a b. f b \<le> f a) (insert_desc f y ys)"
    if "sorted_wrt (\<lambda>a b. f b \<le> f a) ys" for y ys
    using that
  proof (induction ys)
    case Nil
    show ?case by simp
  next
    case (Cons z zs)
    have "set (insert_desc f y zs) = insert y (set zs)"
      by (induction zs) auto
    with Cons show ?case by auto
  qed
  from Cons show ?case by (simp add: order_by_desc_def ins)
qed

lemma date_le_iff: "date_le a b \<longleftrightarrow> \<not> date_less b a"
  by (auto simp: date_le_def date_less_def)

lemma valid_date_month_start: "valid_date today \<Longrightarrow> date_le (month_start_of today) today"
  by (simp add: valid_date_def date_le_def month_start_of_def)

lemma filter_remove1_other: "\<not> P t \<Longrightarrow> filter P (remove1 t xs) = filter P xs"
  by (induction xs) auto

lemma sum_filter_remove1:
  "t \<in> set xs \<Longrightarrow> P t \<Longrightarrow>
   sum_list (map t_amount (filter P xs)) =
     t_amount t + sum_list (map t_amount (filter P (remove1 t xs)))"
  by (simp add: filter_remove1 sum_list_map_remove1)

subsection \<open>Floating-point values\<close>

lemma dbl_threshold_pos: "0 < dbl_threshold"
  by (simp add: dbl_threshold_def)

lemma dbl_round_0 [simp]: "dbl_round 0 = Fin 0"
  using dbl_threshold_pos by (simp add: dbl_round_def)

lemma dbl_round_Fin: "dbl_round x = Fin y \<Longrightarrow> y = x"
  by (simp add: dbl_round_def split: if_splits)

lemma dbl_round_not_NaN [simp]: "dbl_round x \<noteq> NaN"
  by (simp add: dbl_round_def)

lemma float_add_Fin:
  "float_add a b = Fin z \<Longrightarrow> \<exists>x y. a = Fin x \<and> b = Fin y \<and> z = x + y"
  by (cases a; cases b) (auto dest: dbl_round_Fin)

lemma fold_add_Fin:
  "fold (\<lambda>x acc. float_add acc (dbl_round x)) xs a = Fin z \<Longrightarrow>
   \<exists>y. a = Fin y \<and> z = y + sum_list xs"
proof (induction xs arbitrary: a)
  case Nil
  then show ?case by simp
next
  case (Cons x xs)
  from Cons.prems obtain y where
    y: "float_add a (dbl_round x) = Fin y" and z: "z = y + sum_list xs"
    using Cons.IH [of "float_add a (dbl_round x)"] by auto
  from float_add_Fin [OF y] obtain u v where
    "a = Fin u" "dbl_round x = Fin v" "y = u + v" by blast
  with z dbl_round_Fin [of x v] show ?case by simp
qed

lemma dbl_sum_Fin: "dbl_sum xs = Fin z \<Longrightarrow> z = sum_list xs"
  using fold_add_Fin [of xs "Fin 0" z] by (simp add: dbl_sum_def)

lemma dbl_sum_Nil [simp]: "dbl_sum [] = Fin 0"
  by (simp add: dbl_sum_def)

lemma sql_double_Some: "v \<noteq> NaN \<Longrightarrow> sql_double v = Some v"
  by (cases v) (simp_all add: sql_double_def)

lemma sql_double_NaN [simp]: "sql_double NaN = None"
  by (simp add: sql_double_def)

lemma float_truediv_positive:
  "float_gt inc (Fin 0) \<Longrightarrow> \<exists>q. float_truediv bal inc = Inr q"
  by (cases inc; cases bal) auto

lemma float_sub_self_eq:
  "inc \<noteq> NaN \<Longrightarrow> expn \<noteq> NaN \<Longrightarrow>
   float_eq (float_sub inc expn) (float_sub inc expn) \<longleftrightarrow>
     \<not> (inc = PInf \<and> expn = PInf \<or> inc = MInf \<and> expn = MInf)"
  by (cases inc; cases expn) (simp_all add: float_sub_def dbl_round_def)

lemma dbl_sum_two_big: "dbl_sum [big_amount, big_amount] = PInf"
  by (simp add: dbl_sum_def dbl_round_def dbl_threshold_def big_amount_def)

lemma dbl_sum_inf_minus_inf: "dbl_sum [inf_amount, - inf_amount] = NaN"
  by (simp add: dbl_sum_def dbl_round_def dbl_threshold_def inf_amount_def)

lemma dbl_sum_small:
  "dbl_sum [1000] = Fin 1000" "dbl_sum [400] = Fin 400" "dbl_sum [50] = Fin 50"
  by (simp_all add: dbl_sum_def dbl_round_def dbl_threshold_def)

subsection \<open>The sample stores\<close>

lemma seeded_db:
  "setup_database empty_db =
     \<lparr>transactions = [],
      categories =
        [\<lparr>c_id = 1, c_name = ''Salary'', c_type = Some ''income'', c_budget_limit = 0\<rparr>,
         \<lparr>c_id = 2, c_name = ''Freelance'', c_type = Some ''income'', c_budget_limit = 0\<rparr>,
         \<lparr>c_id = 3, c_name = ''Food'', c_type = Some ''expense'', c_budget_limit = 500\<rparr>,
         \<lparr>c_id = 4, c_name = ''Transport'', c_type = Some ''expense'', c_budget_limit = 200\<rparr>,
         \<lparr>c_id = 5, c_name = ''Entertainment'', c_type = Some ''expense'', c_budget_limit = 150\<rparr>,
         \<lparr>c_id = 6, c_name = ''Utilities'', c_type = Some ''expense'', c_budget_limit = 300\<rparr>,
         \<lparr>c_id = 7, c_name = ''Shopping'', c_type = Some ''expense'', c_budget_limit = 400\<rparr>,
         \<lparr>c_id = 8, c_name = ''Healthcare'', c_type = Some ''expense'', c_budget_limit = 200\<rparr>,
         \<lparr>c_id = 9, c_name = ''Rent'', c_type = Some ''expense'', c_budget_limit = 1200\<rparr>]\<rparr>"
  by (simp add: setup_database_def default_categories_def insert_or_ignore_category_def
      empty_db_def check_type_def next_id_def)

lemma distinct_seeded: "distinct (map c_name (categories (setup_database empty_db)))"
  by (simp add: seeded_db)

lemma demo_today_sel:
  "year demo_today = 2024" "month demo_today = 6" "day demo_today = 15"
  by (simp_all add: demo_today_def)

lemma demo_start: "date_minus_days demo_today 30 = Inr \<lparr>year = 2024, month = 5, day = 16\<rparr>"
  by (simp add: date_minus_days_def demo_today_def prev_day_def days_in_month_def is_leap_def
      eval_nat_numeral)

lemma demo_db_transactions:
  "transactions demo_db =
     [\<lparr>t_id = 1, t_amount = 1000, t_category = ''Salary'',
       t_description = Some ''Monthly salary'', t_type = Some ''income'', t_date = demo_today\<rparr>,
      \<lparr>t_id = 2, t_amount = 400, t_category = ''Rent'',
       t_description = None, t_type = Some ''expense'', t_date = demo_today\<rparr>]"
  by (simp add: demo_db_def seeded_db add_transaction_def insert_transaction_def
      check_type_def next_id_def)

lemma spender_db_transactions:
  "transactions spender_db =
     [\<lparr>t_id = 1, t_amount = 400, t_category = ''Rent'',
       t_description = None, t_type = Some ''expense'', t_date = demo_today\<rparr>]"
  by (simp add: spender_db_def seeded_db add_transaction_def insert_transaction_def
      check_type_def next_id_def)

lemma window_db_transactions:
  "transactions window_db =
     [\<lparr>t_id = 1, t_amount = 3000, t_category = ''Salary'', t_description = None,
       t_type = Some ''income'', t_date = demo_today\<rparr>,
      \<lparr>t_id = 2, t_amount = 50, t_category = ''Food'', t_description = None,
       t_type = Some ''expense'', t_date = \<lparr>year = 2024, month = 5, day = 6\<rparr>\<rparr>,
      \<lparr>t_id = 3, t_amount = 60, t_category = ''Transport'', t_description = None,
       t_type = Some ''expense'', t_date = \<lparr>year = 2024, month = 5, day = 16\<rparr>\<rparr>,
      \<lparr>t_id = 4, t_amount = 80, t_category = ''Food'', t_description = None,
       t_type = Some ''expense'', t_date = demo_today\<rparr>]"
  by (simp add: window_db_def seeded_db add_transaction_def insert_transaction_def
      check_type_def next_id_def)

lemma status_db_eval:
  "status_db =
     \<lparr>transactions =
        [\<lparr>t_id = 1, t_amount = 600, t_category = ''Food'', t_description = None,
          t_type = Some ''expense'', t_date = demo_today\<rparr>,
         \<lparr>t_id = 2, t_amount = 180, t_category = ''Transport'', t_description = None,
          t_type = Some ''expense'', t_date = demo_today\<rparr>,
         \<lparr>t_id = 3, t_amount = 600, t_category = ''Rent'', t_description = None,
          t_type = Some ''expense'', t_date = demo_today\<rparr>],
      categories = categories (setup_database empty_db)\<rparr>"
  by (simp add: status_db_def seeded_db add_transaction_def insert_transaction_def
      check_type_def next_id_def)

lemma pets_db_eval:
  "pets_db = \<lparr>transactions = [pets_txn], categories = categories (setup_database empty_db)\<rparr>"
  by (simp add: pets_db_def pets_txn_def seeded_db add_transaction_def insert_transaction_def
      check_type_def next_id_def)

lemma overflow_db_transactions:
  "transactions overflow_db =
     [\<lparr>t_id = 1, t_amount = big_amount, t_category = ''Salary'', t_description = None,
       t_type = Some ''income'', t_date = demo_today\<rparr>,
      \<lparr>t_id = 2, t_amount = big_amount, t_category = ''Freelance'', t_description = None,
       t_type = Some ''income'', t_date = demo_today\<rparr>,
      \<lparr>t_id = 3, t_amount = big_amount, t_category = ''Rent'', t_description = None,
       t_type = Some ''expense'', t_date = demo_today\<rparr>,
      \<lparr>t_id = 4, t_amount = big_amount, t_category = ''Shopping'', t_description = None,
       t_type = Some ''expense'', t_date = demo_today\<rparr>]"
  by (simp add: overflow_db_def seeded_db add_transaction_def insert_transaction_def
      check_type_def next_id_def)

lemma rich_db_transactions:
  "transactions rich_db =
     [\<lparr>t_id = 1, t_amount = big_amount, t_category = ''Salary'', t_description = None,
       t_type = Some ''income'', t_date = demo_today\<rparr>,
      \<lparr>t_id = 2, t_amount = big_amount, t_category = ''Freelance'', t_description = None,
       t_type = Some ''income'', t_date = demo_today\<rparr>]"
  by (simp add: rich_db_def seeded_db add_transaction_def insert_transaction_def
      check_type_def next_id_def)

lemma nan_db_transactions:
  "transactions nan_db =
     [\<lparr>t_id = 1, t_amount = inf_amount, t_category = ''Salary'', t_description = None,
       t_type = Some ''income'', t_date = demo_today\<rparr>,
      \<lparr>t_id = 2, t_amount = - inf_amount, t_category = ''Salary'', t_description = None,
       t_type = Some ''income'', t_date = demo_today\<rparr>]"
  by (simp add: nan_db_def seeded_db add_transaction_def insert_transaction_def
      check_type_def next_id_def)

subsection \<open>Seeding and inserting\<close>

lemma insert_or_ignore_present:
  "nm \<in> c_name ` set (categories d) \<Longrightarrow> insert_or_ignore_category (nm, ty, b) d = d"
  by (simp add: insert_or_ignore_category_def)

lemma names_insert_or_ignore:
  "c_name ` set (categories d) \<subseteq> c_name ` set (categories (insert_or_ignore_category r d))"
  by (cases r) (auto simp: insert_or_ignore_category_def)

lemma names_fold_insert:
  "c_name ` set (categories d)
     \<subseteq> c_name ` set (categories (fold insert_or_ignore_category rs d))"
proof (induction rs arbitrary: d)
  case Nil
  show ?case by simp
next
  case (Cons r rs)
  from names_insert_or_ignore [of d r] Cons [of "insert_or_ignore_category r d"]
  show ?case by simp
qed

lemma fold_insert_names:
  assumes "\<forall>r\<in>set rs. check_type (Some (fst (snd r)))"
  shows "fst ` set rs \<subseteq> c_name ` set (categories (fold insert_or_ignore_category rs d))"
  using assms
proof (induction rs arbitrary: d)
  case Nil
  show ?case by simp
next
  case (Cons r rs)
  from Cons.prems have "fst r \<in> c_name ` set (categories (insert_or_ignore_category r d))"
    by (cases r) (auto simp: insert_or_ignore_category_def)
  with names_fold_insert [of "insert_or_ignore_category r d" rs]
  have "fst r \<in> c_name ` set (categories (fold insert_or_ignore_category (r # rs) d))"
    by auto
  moreover from Cons have
    "fst ` set rs \<subseteq> c_name ` set (categories (fold insert_or_ignore_category (r # rs) d))"
    by simp
  ultimately show ?case by simp
qed

lemma fold_insert_present:
  "fst ` set rs \<subseteq> c_name ` set (categories d) \<Longrightarrow> fold insert_or_ignore_category rs d = d"
proof (induction rs)
  case Nil
  show ?case by simp
next
  case (Cons r rs)
  then have "insert_or_ignore_category r d = d"
    by (cases r) (simp add: insert_or_ignore_present)
  with Cons show ?case by simp
qed

lemma default_categories_checked:
  "\<forall>r\<in>set default_categories. check_type (Some (fst (snd r)))"
  by (simp add: default_categories_def check_type_def)

text \<open>
  Names stay unique: \<^verbatim>\<open>setup_database\<close> keeps them so, and
  \<^verbatim>\<open>add_transaction\<close> does not write to \<^verbatim>\<open>categories\<close>.
\<close>

lemma insert_or_ignore_unique:
  "distinct (map c_name (categories d)) \<Longrightarrow>
   distinct (map c_name (categories (insert_or_ignore_category r d)))"
  by (cases r) (auto simp: insert_or_ignore_category_def)

lemma setup_database_unique:
  "distinct (map c_name (categories d)) \<Longrightarrow>
   distinct (map c_name (categories (setup_database d)))"
proof -
  have "distinct (map c_name (categories d)) \<Longrightarrow>
      distinct (map c_name (categories (fold insert_or_ignore_category rs d)))" for rs
    by (induction rs arbitrary: d) (simp_all add: insert_or_ignore_unique)
  then show "distinct (map c_name (categories d)) \<Longrightarrow>
      distinct (map c_name (categories (setup_database d)))"
    by (simp add: setup_database_def)
qed

lemma add_transaction_categories:
  "categories (fst (add_transaction d today amount cat descr ty dt)) = categories d"
  by (auto simp: add_transaction_def insert_transaction_def split: option.splits)

text \<open>
  Claim C6. \<^verbatim>\<open>setup_database\<close> is idempotent: run twice in succession, on any
  store, it leaves what the first run left; from an empty store the two runs leave
  exactly 9 categories with no name twice. Inserting a category whose name is already
  in the table changes nothing and raises nothing.
\<close>

theorem setup_database_idempotent:
  "setup_database (setup_database d) = setup_database d \<and>
   length (categories (setup_database (setup_database empty_db))) = 9 \<and>
   distinct (map c_name (categories (setup_database (setup_database empty_db)))) \<and>
   (nm \<in> c_name ` set (categories d) \<longrightarrow> insert_or_ignore_category (nm, ty, b) d = d)"
proof -
  have idem: "setup_database (setup_database d') = setup_database d'" for d'
    using fold_insert_names [OF default_categories_checked, of d']
    unfolding setup_database_def by (rule fold_insert_present)
  have "length (categories (setup_database empty_db)) = 9"
    "distinct (map c_name (categories (setup_database empty_db)))"
    by (simp_all add: seeded_db)
  with idem show ?thesis
    by (simp add: insert_or_ignore_present)
qed

theorem setup_database_idempotent_witness:
  "setup_database (setup_database empty_db) = setup_database empty_db \<and>
   length (categories (setup_database (setup_database empty_db))) = 9 \<and>
   ''Food'' \<in> c_name ` set (categories (setup_database empty_db)) \<and>
   insert_or_ignore_category (''Food'', ''expense'', 999) (setup_database empty_db) =
     setup_database empty_db"
  using setup_database_idempotent [of "setup_database empty_db" "''Food''" "''expense''" 999]
    setup_database_idempotent [of empty_db "''Food''" "''expense''" 999]
  by (simp add: seeded_db)

text \<open>
  Claim C8. The check constraint refuses a kind such as \<^verbatim>\<open>transfer\<close>: the call ends
  with the engine's \<^verbatim>\<open>IntegrityError\<close> and the store is as it was. It does not
  refuse the kind \<^verbatim>\<open>None\<close>, which is neither \<^verbatim>\<open>income\<close> nor
  \<^verbatim>\<open>expense\<close>: the column has no \<^verbatim>\<open>NOT NULL\<close>, the constraint's expression is
  \<^verbatim>\<open>NULL\<close> on a \<^verbatim>\<open>NULL\<close> type, and the row is stored and \<^verbatim>\<open>True\<close> returned.
\<close>

theorem null_kind_stored:
  "add_transaction (setup_database empty_db) demo_today (Some 100) (Some ''Food'') (Some [])
     None None =
     ((setup_database empty_db)
        \<lparr>transactions :=
           [\<lparr>t_id = 1, t_amount = 100, t_category = ''Food'', t_description = Some [],
             t_type = None, t_date = demo_today\<rparr>]\<rparr>,
      Inr True) \<and>
   add_transaction (setup_database empty_db) demo_today (Some 100) (Some ''Food'') (Some [])
     (Some ''transfer'') None = (setup_database empty_db, Inl IntegrityError)"
  by (simp add: add_transaction_def insert_transaction_def check_type_def seeded_db next_id_def)

subsection \<open>Monthly summary\<close>

lemma fold_summary_store:
  "fold summary_store (map (\<lambda>k. (k, f k, g k)) ks) s k =
     (if k \<in> set ks then Some (f k) else s k)"
  by (induction ks arbitrary: s) (auto simp: summary_store_def)

lemma filter_month_kind:
  "filter (\<lambda>t. year_month (t_date t) = year_month today \<and> t_type t = Some k) (transactions d) =
   month_rows d today k"
  by (simp add: month_rows_def)

lemma month_lookup:
  "fold summary_store (query_monthly_totals d (year_month today)) summary_init (Some k) =
     (if k = ''income'' \<or> k = ''expense'' \<or> month_rows d today k \<noteq> []
      then Some (sql_double (month_sum d today k)) else None)"
proof -
  let ?rows = "filter (\<lambda>t. year_month (t_date t) = year_month today) (transactions d)"
  have mem: "Some k \<in> set (map t_type ?rows) \<longleftrightarrow> month_rows d today k \<noteq> []"
    by (force simp: month_rows_def filter_empty_conv)
  show ?thesis
  proof (cases "month_rows d today k = []")
    case True
    then have "month_sum d today k = Fin 0"
      by (simp add: month_sum_def)
    with True mem show ?thesis
      by (auto simp: query_monthly_totals_def Let_def fold_summary_store summary_init_def
          sql_double_def)
  next
    case False
    with mem show ?thesis
      by (simp add: query_monthly_totals_def Let_def fold_summary_store filter_month_kind
          month_sum_def)
  qed
qed

lemma get_monthly_summary_eq:
  "get_monthly_summary d today =
     (case (sql_double (month_sum d today ''income''), sql_double (month_sum d today ''expense'')) of
        (Some inc, Some expn) \<Rightarrow>
          Inr ((fold summary_store (query_monthly_totals d (year_month today)) summary_init)
                 (Some ''balance'' \<mapsto> Some (float_sub inc expn),
                  Some ''savings_rate'' \<mapsto> Some (savings_of inc (float_sub inc expn))))
      | _ \<Rightarrow> Inl TypeError)"
proof (cases "sql_double (month_sum d today ''income'')")
  case None
  then show ?thesis
    by (simp add: get_monthly_summary_def Let_def dict_get_def month_lookup py_sub_def py_num_def)
next
  case inc: (Some inc)
  show ?thesis
  proof (cases "sql_double (month_sum d today ''expense'')")
    case None
    with inc show ?thesis
      by (simp add: get_monthly_summary_def Let_def dict_get_def month_lookup py_sub_def
          py_num_def)
  next
    case (Some expn)
    show ?thesis
    proof (cases "float_gt inc (Fin 0)")
      case True
      from float_truediv_positive [OF this] obtain q where
        "float_truediv (float_sub inc expn) inc = Inr q" by blast
      with inc Some True show ?thesis
        by (simp add: get_monthly_summary_def Let_def dict_get_def month_lookup py_sub_def
            py_num_def py_gt_def py_div_def py_mul_def savings_of_def)
    next
      case False
      with inc Some show ?thesis
        by (simp add: get_monthly_summary_def Let_def dict_get_def month_lookup py_sub_def
            py_num_def py_gt_def savings_of_def)
    qed
  qed
qed

lemma month_sum_empty: "month_rows d today k = [] \<Longrightarrow> month_sum d today k = Fin 0"
  by (simp add: month_sum_def)

lemma month_sum_Fin: "month_sum d today k = Fin x \<Longrightarrow> x = month_total d today k"
  unfolding month_sum_def month_total_def month_rows_def by (rule dbl_sum_Fin)

lemma savings_of_eq:
  assumes "inc \<noteq> NaN" and "expn \<noteq> NaN" and "float_gt inc (Fin 0)"
  shows "\<exists>q. float_truediv (float_sub inc expn) inc = Inr q \<and>
     savings_of inc (float_sub inc expn) = float_mul q (Fin 100) \<and>
     (float_eq (float_mul q (Fin 100)) (float_mul q (Fin 100)) \<longleftrightarrow> inc \<noteq> PInf)"
proof -
  from float_truediv_positive [OF assms(3)] obtain q where
    q: "float_truediv (float_sub inc expn) inc = Inr q" by blast
  have "float_eq (float_mul q (Fin 100)) (float_mul q (Fin 100)) \<longleftrightarrow> inc \<noteq> PInf"
    using assms q
    by (cases inc; cases expn)
       (auto simp: float_sub_def dbl_round_def split: if_splits)
  with q assms(3) show ?thesis
    by (simp add: savings_of_def)
qed

lemma month_sums_demo:
  "month_sum demo_db demo_today ''income'' = Fin 1000"
  "month_sum demo_db demo_today ''expense'' = Fin 400"
  "month_sum spender_db demo_today ''income'' = Fin 0"
  "month_sum spender_db demo_today ''expense'' = Fin 400"
  "month_sum overflow_db demo_today ''income'' = PInf"
  "month_sum overflow_db demo_today ''expense'' = PInf"
  "month_sum rich_db demo_today ''income'' = PInf"
  "month_sum rich_db demo_today ''expense'' = Fin 0"
  "month_sum nan_db demo_today ''income'' = NaN"
  by (simp_all add: month_sum_def month_rows_def year_month_def demo_db_transactions
      spender_db_transactions overflow_db_transactions rich_db_transactions
      nan_db_transactions dbl_sum_two_big dbl_sum_inf_minus_inf dbl_sum_small)

lemma month_sum_pets: "month_sum pets_db demo_today ''expense'' = Fin 50"
  "month_sum pets_db demo_today ''income'' = Fin 0"
  by (simp_all add: month_sum_def month_rows_def year_month_def pets_db_eval pets_txn_def
      dbl_sum_small)

text \<open>
  Claim C2, as amended. In every store, and so in every store that a sequence of
  \<^verbatim>\<open>add_transaction\<close> calls reaches: when both current-month sums are numbers,
  \<^verbatim>\<open>get_monthly_summary\<close> returns a summary whose \<^verbatim>\<open>income\<close> and
  \<^verbatim>\<open>expense\<close> are the current-month totals of their kind (0 when the month has no
  transaction of that kind, the exact sum when the total is finite) and whose
  \<^verbatim>\<open>balance\<close> is the floating-point difference of the two;
  \<^verbatim>\<open>balance == income - expense\<close> holds exactly when the two totals are not the
  same infinity. When a sum is \<^verbatim>\<open>nan\<close>, which the engine returns as
  \<^verbatim>\<open>NULL\<close>, the call raises \<^verbatim>\<open>TypeError\<close>.
\<close>

theorem monthly_summary_balance:
  "(month_sum d today ''income'' = NaN \<or> month_sum d today ''expense'' = NaN \<longrightarrow>
      get_monthly_summary d today = Inl TypeError) \<and>
   (month_sum d today ''income'' \<noteq> NaN \<and> month_sum d today ''expense'' \<noteq> NaN \<longrightarrow>
      (\<exists>s inc expn bal. get_monthly_summary d today = Inr s \<and>
         s (Some ''income'') = Some (Some inc) \<and> inc = month_sum d today ''income'' \<and>
         s (Some ''expense'') = Some (Some expn) \<and> expn = month_sum d today ''expense'' \<and>
         s (Some ''balance'') = Some (Some bal) \<and> bal = float_sub inc expn \<and>
         (float_eq bal (float_sub inc expn) \<longleftrightarrow>
            \<not> (inc = PInf \<and> expn = PInf \<or> inc = MInf \<and> expn = MInf)))) \<and>
   (month_rows d today ''income'' = [] \<longrightarrow> month_sum d today ''income'' = Fin 0) \<and>
   (month_rows d today ''expense'' = [] \<longrightarrow> month_sum d today ''expense'' = Fin 0) \<and>
   (\<forall>x. month_sum d today k = Fin x \<longrightarrow> x = month_total d today k)"
proof (intro conjI impI allI)
  assume "month_sum d today ''income'' = NaN \<or> month_sum d today ''expense'' = NaN"
  then show "get_monthly_summary d today = Inl TypeError"
    by (auto simp: get_monthly_summary_eq split: option.splits)
next
  assume ok: "month_sum d today ''income'' \<noteq> NaN \<and> month_sum d today ''expense'' \<noteq> NaN"
  let ?inc = "month_sum d today ''income''" and ?expn = "month_sum d today ''expense''"
  from ok have eq: "float_eq (float_sub ?inc ?expn) (float_sub ?inc ?expn) \<longleftrightarrow>
      \<not> (?inc = PInf \<and> ?expn = PInf \<or> ?inc = MInf \<and> ?expn = MInf)"
    by (simp add: float_sub_self_eq)
  from ok show "\<exists>s inc expn bal. get_monthly_summary d today = Inr s \<and>
         s (Some ''income'') = Some (Some inc) \<and> inc = month_sum d today ''income'' \<and>
         s (Some ''expense'') = Some (Some expn) \<and> expn = month_sum d today ''expense'' \<and>
         s (Some ''balance'') = Some (Some bal) \<and> bal = float_sub inc expn \<and>
         (float_eq bal (float_sub inc expn) \<longleftrightarrow>
            \<not> (inc = PInf \<and> expn = PInf \<or> inc = MInf \<and> expn = MInf))"
    using eq by (simp add: get_monthly_summary_eq sql_double_Some month_lookup)
qed (simp_all add: month_sum_empty month_sum_Fin)

theorem monthly_summary_balance_witness:
  "(\<exists>s. get_monthly_summary demo_db demo_today = Inr s \<and>
        s (Some ''income'') = Some (Some (Fin 1000)) \<and>
        s (Some ''expense'') = Some (Some (Fin 400)) \<and>
        s (Some ''balance'') = Some (Some (Fin 600)) \<and>
        float_eq (Fin 600) (float_sub (Fin 1000) (Fin 400))) \<and>
   month_rows spender_db demo_today ''income'' = [] \<and>
   month_sum spender_db demo_today ''income'' = Fin 0 \<and>
   month_total demo_db demo_today ''income'' = 1000 \<and>
   get_monthly_summary nan_db demo_today = Inl TypeError"
  using monthly_summary_balance [of demo_db demo_today "''income''"]
    monthly_summary_balance [of spender_db demo_today "''income''"]
    monthly_summary_balance [of nan_db demo_today "''income''"]
  by (auto simp: month_sums_demo float_sub_def dbl_round_def dbl_threshold_def
      month_rows_def spender_db_transactions)

text \<open>
  Claim C2 as stated fails when both totals overflow: two incomes and two expenses of
  \<open>10 ^ 308\<close> each give \<^verbatim>\<open>income = inf\<close>, \<^verbatim>\<open>expense = inf\<close> and
  \<^verbatim>\<open>balance = nan\<close>, and \<^verbatim>\<open>nan == inf - inf\<close> is false.
\<close>

theorem monthly_summary_balance_counterexample:
  "get_monthly_summary overflow_db demo_today =
     Inr [Some ''income'' \<mapsto> Some PInf, Some ''expense'' \<mapsto> Some PInf,
          Some ''balance'' \<mapsto> Some NaN, Some ''savings_rate'' \<mapsto> Some NaN] \<and>
   float_sub PInf PInf = NaN \<and>
   \<not> float_eq NaN (float_sub PInf PInf)"
  by (simp add: get_monthly_summary_eq month_sums_demo sql_double_def savings_of_def
      float_sub_def query_monthly_totals_def year_month_def overflow_db_transactions
      dbl_sum_two_big summary_init_def summary_store_def)

text \<open>
  Claim C3, as amended. \<^verbatim>\<open>get_monthly_summary\<close> never raises
  \<^verbatim>\<open>ZeroDivisionError\<close>: it divides by the income only when the income is
  positive. When both current-month sums are numbers it returns, with
  \<^verbatim>\<open>savings_rate\<close> 0 when the income is 0, and whenever it is not positive, and
  with \<^verbatim>\<open>savings_rate\<close> the floating-point value of \<^verbatim>\<open>balance / income * 100\<close>
  when the income is positive; \<^verbatim>\<open>savings_rate == balance / income * 100\<close> holds
  exactly when the income is not infinite. When a sum is \<^verbatim>\<open>nan\<close> the call raises
  \<^verbatim>\<open>TypeError\<close>.
\<close>

theorem savings_rate_guard:
  "get_monthly_summary d today \<noteq> Inl ZeroDivisionError \<and>
   (month_sum d today ''income'' = NaN \<or> month_sum d today ''expense'' = NaN \<longrightarrow>
      get_monthly_summary d today = Inl TypeError) \<and>
   (month_sum d today ''income'' \<noteq> NaN \<and> month_sum d today ''expense'' \<noteq> NaN \<longrightarrow>
      (\<exists>s inc bal. get_monthly_summary d today = Inr s \<and>
         s (Some ''income'') = Some (Some inc) \<and> inc = month_sum d today ''income'' \<and>
         s (Some ''balance'') = Some (Some bal) \<and>
         (inc = Fin 0 \<longrightarrow> s (Some ''savings_rate'') = Some (Some (Fin 0))) \<and>
         (\<not> float_gt inc (Fin 0) \<longrightarrow> s (Some ''savings_rate'') = Some (Some (Fin 0))) \<and>
         (float_gt inc (Fin 0) \<longrightarrow>
            (\<exists>q r. float_truediv bal inc = Inr q \<and> r = float_mul q (Fin 100) \<and>
               s (Some ''savings_rate'') = Some (Some r) \<and>
               (float_eq r (float_mul q (Fin 100)) \<longleftrightarrow> inc \<noteq> PInf)))))"
proof (intro conjI impI)
  show "get_monthly_summary d today \<noteq> Inl ZeroDivisionError"
    by (simp add: get_monthly_summary_eq split: option.splits)
next
  assume "month_sum d today ''income'' = NaN \<or> month_sum d today ''expense'' = NaN"
  then show "get_monthly_summary d today = Inl TypeError"
    by (auto simp: get_monthly_summary_eq split: option.splits)
next
  assume ok: "month_sum d today ''income'' \<noteq> NaN \<and> month_sum d today ''expense'' \<noteq> NaN"
  let ?inc = "month_sum d today ''income''" and ?expn = "month_sum d today ''expense''"
  let ?s = "(fold summary_store (query_monthly_totals d (year_month today)) summary_init)
      (Some ''balance'' \<mapsto> Some (float_sub ?inc ?expn),
       Some ''savings_rate'' \<mapsto> Some (savings_of ?inc (float_sub ?inc ?expn)))"
  from ok have res: "get_monthly_summary d today = Inr ?s"
    by (simp add: get_monthly_summary_eq sql_double_Some)
  from ok have inc: "?s (Some ''income'') = Some (Some ?inc)"
    by (simp add: month_lookup sql_double_Some)
  have bal: "?s (Some ''balance'') = Some (Some (float_sub ?inc ?expn))"
    by simp
  have zero: "?s (Some ''savings_rate'') = Some (Some (Fin 0))" if "\<not> float_gt ?inc (Fin 0)"
    using that by (simp add: savings_of_def)
  have pos: "\<exists>q r. float_truediv (float_sub ?inc ?expn) ?inc = Inr q \<and>
      r = float_mul q (Fin 100) \<and> ?s (Some ''savings_rate'') = Some (Some r) \<and>
      (float_eq r (float_mul q (Fin 100)) \<longleftrightarrow> ?inc \<noteq> PInf)"
    if "float_gt ?inc (Fin 0)"
    using savings_of_eq [OF conjunct1 [OF ok] conjunct2 [OF ok] that] by auto
  have zero': "?s (Some ''savings_rate'') = Some (Some (Fin 0))" if "?inc = Fin 0"
    using that zero by simp
  from res inc bal zero zero' pos
  show "\<exists>s inc bal. get_monthly_summary d today = Inr s \<and>
         s (Some ''income'') = Some (Some inc) \<and> inc = month_sum d today ''income'' \<and>
         s (Some ''balance'') = Some (Some bal) \<and>
         (inc = Fin 0 \<longrightarrow> s (Some ''savings_rate'') = Some (Some (Fin 0))) \<and>
         (\<not> float_gt inc (Fin 0) \<longrightarrow> s (Some ''savings_rate'') = Some (Some (Fin 0))) \<and>
         (float_gt inc (Fin 0) \<longrightarrow>
            (\<exists>q r. float_truediv bal inc = Inr q \<and> r = float_mul q (Fin 100) \<and>
               s (Some ''savings_rate'') = Some (Some r) \<and>
               (float_eq r (float_mul q (Fin 100)) \<longleftrightarrow> inc \<noteq> PInf)))"
    by blast
qed

theorem savings_rate_guard_witness:
  "(\<exists>s. get_monthly_summary demo_db demo_today = Inr s \<and>
        s (Some ''income'') = Some (Some (Fin 1000)) \<and>
        s (Some ''balance'') = Some (Some (Fin 600)) \<and>
        s (Some ''savings_rate'') = Some (Some (Fin 60))) \<and>
   (\<exists>s. get_monthly_summary spender_db demo_today = Inr s \<and>
        s (Some ''income'') = Some (Some (Fin 0)) \<and>
        s (Some ''balance'') = Some (Some (Fin (- 400))) \<and>
        s (Some ''savings_rate'') = Some (Some (Fin 0))) \<and>
   get_monthly_summary nan_db demo_today = Inl TypeError"
proof -
  have demo: "float_sub (Fin 1000) (Fin 400) = Fin 600"
    "dbl_round (3 / 5) = Fin (3 / 5)"
    "dbl_round 60 = Fin 60"
    "float_sub (Fin 0) (Fin 400) = Fin (- 400)"
    by (simp_all add: float_sub_def dbl_round_def dbl_threshold_def)
  from savings_rate_guard [of demo_db demo_today] savings_rate_guard [of spender_db demo_today]
    savings_rate_guard [of nan_db demo_today]
  show ?thesis
    by (auto simp: month_sums_demo get_monthly_summary_eq sql_double_def demo)
qed

text \<open>
  Claim C3 as stated fails when the income overflows: two incomes of \<open>10 ^ 308\<close>
  give \<^verbatim>\<open>income = inf\<close>, which is positive, and \<^verbatim>\<open>savings_rate = inf / inf * 100\<close>,
  which is \<^verbatim>\<open>nan\<close> and equal to nothing.
\<close>

theorem savings_rate_guard_counterexample:
  "get_monthly_summary rich_db demo_today =
     Inr [Some ''expense'' \<mapsto> Some (Fin 0), Some ''income'' \<mapsto> Some PInf,
          Some ''balance'' \<mapsto> Some PInf, Some ''savings_rate'' \<mapsto> Some NaN] \<and>
   float_gt PInf (Fin 0) \<and>
   float_truediv PInf PInf = Inr NaN \<and>
   float_mul NaN (Fin 100) = NaN \<and>
   \<not> float_eq NaN (float_mul NaN (Fin 100))"
  by (simp add: get_monthly_summary_eq month_sums_demo sql_double_def savings_of_def
      float_sub_def query_monthly_totals_def year_month_def rich_db_transactions
      dbl_sum_two_big summary_init_def summary_store_def)

subsection \<open>Category spending\<close>

lemma spending_filter_rows:
  "filter (\<lambda>t. spending_filter since t \<and> t_category t = c) xs =
   filter (\<lambda>t. t_category t = c \<and> t_type t = Some ''expense'' \<and> \<not> date_less (t_date t) since) xs"
  by (induction xs) (auto simp: spending_filter_def date_le_iff)

lemma set_query_category_spending:
  "set (query_category_spending d since) =
     (\<lambda>c. (c, sum_list (map t_amount (spending_rows d since c)), length (spending_rows d since c)))
       ` {c. spending_rows d since c \<noteq> []}"
proof -
  have "t_category ` {t \<in> set (transactions d). spending_filter since t} =
        {c. spending_rows d since c \<noteq> []}"
    by (auto simp: spending_rows_def spending_filter_def date_le_iff filter_empty_conv)
  then show ?thesis
    by (simp add: query_category_spending_def Let_def spending_filter_rows spending_rows_def)
qed

lemma get_category_spending_Inr:
  "get_category_spending d today days = Inr rows \<longleftrightarrow>
     (\<exists>start. date_minus_days today days = Inr start \<and> rows = query_category_spending d start)"
  by (cases "date_minus_days today days") (auto simp: get_category_spending_def)

lemma filter_keep_spending:
  assumes "\<forall>t\<in>set xs. \<not> keep t \<longrightarrow>
             t_type t = Some ''income'' \<or> (t_type t = Some ''expense'' \<and> date_less (t_date t) since)"
  shows "filter (spending_filter since) (filter keep xs) = filter (spending_filter since) xs"
  using assms by (induction xs) (auto simp: spending_filter_def date_le_iff)

lemma spending_row_includes:
  assumes "t \<in> set (transactions d)"
    and "t_type t = Some ''expense''"
    and "date_le start (t_date t)"
  shows "t \<in> set (spending_rows d start (t_category t)) \<and>
     (t_category t,
      t_amount t + sum_list (map t_amount (remove1 t (spending_rows d start (t_category t)))),
      Suc (length (remove1 t (spending_rows d start (t_category t)))))
       \<in> set (query_category_spending d start)"
proof -
  let ?q = "spending_rows d start (t_category t)"
  from assms have mem: "t \<in> set ?q"
    by (simp add: spending_rows_def date_le_iff)
  then have ne: "?q \<noteq> []" by auto
  have row: "(t_category t, sum_list (map t_amount ?q), length ?q)
      \<in> set (query_category_spending d start)"
    unfolding set_query_category_spending using ne by blast
  have tot: "sum_list (map t_amount ?q) = t_amount t + sum_list (map t_amount (remove1 t ?q))"
    using mem by (rule sum_list_map_remove1)
  have len: "length ?q = Suc (length (remove1 t ?q))"
    using mem ne by (simp add: length_remove1)
  from mem row show ?thesis
    unfolding tot len by simp
qed

lemma window_db_spending:
  "get_category_spending window_db demo_today 30 =
     Inr [(''Food'', 80, 1), (''Transport'', 60, 1)]"
  by (simp add: get_category_spending_def demo_start query_category_spending_def
      window_db_transactions spending_filter_def date_le_def order_by_desc_def demo_today_sel)

text \<open>
  Claim C4. When \<^verbatim>\<open>get_category_spending(days)\<close> returns, every row of the result
  is the sum and the count of the expenses of its category that are not dated strictly
  before \<open>today - days\<close>, and there is at least one of them. The result does not
  change when income transactions, and expenses dated strictly before
  \<open>today - days\<close>, are taken out of the table: none of them is included.
\<close>

theorem category_spending_window:
  assumes "get_category_spending d today days = Inr rows"
  shows "\<exists>start. date_minus_days today days = Inr start \<and>
     (\<forall>r\<in>set rows. \<exists>q. q = spending_rows d start (fst r) \<and> q \<noteq> [] \<and>
        fst (snd r) = sum_list (map t_amount q) \<and> snd (snd r) = length q) \<and>
     ((\<forall>t\<in>set (transactions d). \<not> keep t \<longrightarrow>
          t_type t = Some ''income'' \<or>
          (t_type t = Some ''expense'' \<and> date_less (t_date t) start)) \<longrightarrow>
      get_category_spending (d\<lparr>transactions := filter keep (transactions d)\<rparr>) today days
        = Inr rows)"
proof -
  from assms obtain start where
    start: "date_minus_days today days = Inr start" and
    rows: "rows = query_category_spending d start"
    by (auto simp: get_category_spending_Inr)
  have agg: "\<forall>r\<in>set rows. \<exists>q. q = spending_rows d start (fst r) \<and> q \<noteq> [] \<and>
        fst (snd r) = sum_list (map t_amount q) \<and> snd (snd r) = length q"
    unfolding rows set_query_category_spending by auto
  have inv: "get_category_spending (d\<lparr>transactions := filter keep (transactions d)\<rparr>) today days
        = Inr rows"
    if "\<forall>t\<in>set (transactions d). \<not> keep t \<longrightarrow>
          t_type t = Some ''income'' \<or>
          (t_type t = Some ''expense'' \<and> date_less (t_date t) start)"
    using filter_keep_spending [OF that]
    by (simp add: get_category_spending_def start rows query_category_spending_def
        del: filter_filter)
  from start agg inv show ?thesis by blast
qed

theorem category_spending_window_witness:
  "get_category_spending window_db demo_today 30 =
     Inr [(''Food'', 80, 1), (''Transport'', 60, 1)] \<and>
   length (spending_rows window_db \<lparr>year = 2024, month = 5, day = 16\<rparr> ''Food'') = 1 \<and>
   get_category_spending
     (window_db\<lparr>transactions := filter (\<lambda>t. 2 < t_id t) (transactions window_db)\<rparr>)
     demo_today 30 = Inr [(''Food'', 80, 1), (''Transport'', 60, 1)]"
  using category_spending_window [OF window_db_spending, of "\<lambda>t. 2 < t_id t"] window_db_spending
  by (auto simp: demo_start window_db_transactions date_less_def demo_today_sel
      spending_rows_def)

text \<open>
  Claim C10. The lower bound of the window is inclusive: an expense dated exactly
  \<open>today - days\<close> is among the transactions its category's row aggregates; the
  row's total is its amount plus the amounts of the others, and it is counted.
\<close>

theorem category_spending_lower_bound_inclusive:
  assumes "date_minus_days today days = Inr start"
    and "t \<in> set (transactions d)"
    and "t_type t = Some ''expense''"
    and "t_date t = start"
  shows "\<exists>rows tot n. get_category_spending d today days = Inr rows \<and>
     (t_category t, tot, n) \<in> set rows \<and>
     t \<in> set (spending_rows d start (t_category t)) \<and>
     tot = t_amount t + sum_list (map t_amount (remove1 t (spending_rows d start (t_category t)))) \<and>
     n = Suc (length (remove1 t (spending_rows d start (t_category t))))"
proof -
  let ?q = "spending_rows d start (t_category t)"
  have "\<not> date_less (t_date t) start"
    using assms(4) by (simp add: date_less_def)
  with assms(2,3) have mem: "t \<in> set ?q"
    by (simp add: spending_rows_def)
  then have ne: "?q \<noteq> []" by auto
  have row: "(t_category t, sum_list (map t_amount ?q), length ?q)
      \<in> set (query_category_spending d start)"
    unfolding set_query_category_spending using ne by blast
  have tot: "sum_list (map t_amount ?q) = t_amount t + sum_list (map t_amount (remove1 t ?q))"
    using mem by (rule sum_list_map_remove1)
  have len: "length ?q = Suc (length (remove1 t ?q))"
    using mem ne by (simp add: length_remove1)
  have "get_category_spending d today days = Inr (query_category_spending d start)"
    by (simp add: get_category_spending_def assms(1))
  with row mem tot len show ?thesis by metis
qed

theorem category_spending_lower_bound_inclusive_witness:
  "\<exists>rows. get_category_spending window_db demo_today 30 = Inr rows \<and>
     (''Transport'', 60, 1) \<in> set rows"
  using category_spending_lower_bound_inclusive
    [OF demo_start, of "\<lparr>t_id = 3, t_amount = 60, t_category = ''Transport'', t_description = None,
       t_type = Some ''expense'', t_date = \<lparr>year = 2024, month = 5, day = 16\<rparr>\<rparr>" window_db]
  by (auto simp: window_db_transactions spending_rows_def date_less_def demo_today_sel)

subsection \<open>The budget query\<close>

lemma budget_loop_total: "budget_loop rows = Inr (map budget_row_of rows)"
  by (induction rows rule: budget_loop.induct)
     (auto simp: budget_row_of_def py_truediv_def Let_def)

lemma check_budgets_eq:
  "check_budgets d today = Inr (map budget_row_of (query_budget_usage d (month_start_of today)))"
  by (simp add: check_budgets_def budget_loop_total)

lemma fst_join_rows: "r \<in> set (join_rows d since c) \<Longrightarrow> fst r = c"
  by (auto simp: join_rows_def Let_def split: if_splits)

lemma join_rows_not_Nil: "join_rows d since c \<noteq> []"
  by (simp add: join_rows_def Let_def)

lemma filter_join_rows:
  "filter (\<lambda>r. Q (fst r)) (join_rows d since c) = (if Q c then join_rows d since c else [])"
proof -
  have "\<forall>r\<in>set (join_rows d since c). Q (fst r) = Q c"
    by (simp add: fst_join_rows)
  then show ?thesis
    by (auto simp: filter_empty_conv filter_id_conv)
qed

lemma filter_left_join:
  "filter (\<lambda>r. Q (fst r)) (concat (map (join_rows d since) cs)) =
   concat (map (join_rows d since) (filter Q cs))"
  by (induction cs) (simp_all add: filter_join_rows)

lemma join_rows_sum:
  "coalesce (sql_sum (map (\<lambda>r. map_option t_amount (snd r)) (join_rows d since c))) 0 =
   budget_spent d since c"
proof (cases "filter (join_on since c) (transactions d)")
  case Nil
  then show ?thesis
    by (simp add: join_rows_def budget_spent_def sql_sum_def coalesce_def List.map_filter_def)
next
  case (Cons t ts)
  have mf: "List.map_filter (\<lambda>v. v) (map (\<lambda>x. Some (t_amount x)) xs) = map t_amount xs"
    for xs :: "txn list"
    by (induction xs) (simp_all add: List.map_filter_def)
  from Cons show ?thesis
    by (simp add: join_rows_def budget_spent_def sql_sum_def coalesce_def comp_def mf)
qed

lemma group_key_left_join:
  "group_key ` set (concat (map (join_rows d since) cs)) =
   (\<lambda>c. (c_name c, c_budget_limit c)) ` set cs"
proof (induction cs)
  case Nil
  show ?case by simp
next
  case (Cons c cs)
  have same: "\<forall>r\<in>set (join_rows d since c). group_key r = (c_name c, c_budget_limit c)"
    by (simp add: group_key_def fst_join_rows)
  obtain r where "r \<in> set (join_rows d since c)"
    using join_rows_not_Nil [of d since c] by (cases "join_rows d since c") auto
  with same have "group_key ` set (join_rows d since c) = {(c_name c, c_budget_limit c)}"
    by force
  with Cons show ?case by (simp add: image_Un)
qed

lemma unique_name_filter:
  "distinct (map c_name cs) \<Longrightarrow> c \<in> set cs \<Longrightarrow>
   filter (\<lambda>x. (c_name x, c_budget_limit x) = (c_name c, c_budget_limit c)) cs = [c]"
proof (induction cs)
  case Nil
  then show ?case by simp
next
  case (Cons a cs)
  show ?case
  proof (cases "a = c")
    case True
    with Cons.prems have "c_name c \<notin> c_name ` set cs" by simp
    then have "\<forall>x\<in>set cs. c_name x \<noteq> c_name c" by (metis imageI)
    then have "filter (\<lambda>x. (c_name x, c_budget_limit x) = (c_name c, c_budget_limit c)) cs = []"
      by (auto simp: filter_empty_conv)
    with True show ?thesis by simp
  next
    case False
    with Cons.prems have "c \<in> set cs" "c_name a \<noteq> c_name c" by auto
    with Cons show ?thesis by simp
  qed
qed

lemma query_budget_usage_groups:
  "query_budget_usage d since =
     order_by_desc (\<lambda>(nm, lim_b, sp). sql_div sp lim_b)
       (map (\<lambda>k. (fst k, snd k,
           coalesce (sql_sum (map (\<lambda>r. map_option t_amount (snd r))
             (concat (map (join_rows d since)
                (filter (\<lambda>c. (c_name c, c_budget_limit c) = k) (budgeted d)))))) 0))
          (remdups (map group_key (concat (map (join_rows d since) (budgeted d))))))"
proof -
  have rows: "filter (\<lambda>r. c_type (fst r) = Some ''expense'' \<and> 0 < c_budget_limit (fst r))
      (left_join d since) = concat (map (join_rows d since) (budgeted d))"
    unfolding left_join_def budgeted_def by (rule filter_left_join)
  have grp: "filter (\<lambda>r. group_key r = k) (concat (map (join_rows d since) cs)) =
      concat (map (join_rows d since) (filter (\<lambda>c. (c_name c, c_budget_limit c) = k) cs))" for k cs
    unfolding group_key_def by (rule filter_left_join)
  show ?thesis
    unfolding query_budget_usage_def Let_def rows grp ..
qed

lemma set_query_budget_usage_keys:
  "set (query_budget_usage d since) =
     (\<lambda>k. (fst k, snd k,
         coalesce (sql_sum (map (\<lambda>r. map_option t_amount (snd r))
           (concat (map (join_rows d since)
              (filter (\<lambda>c. (c_name c, c_budget_limit c) = k) (budgeted d)))))) 0))
       ` (\<lambda>c. (c_name c, c_budget_limit c)) ` set (budgeted d)"
  by (simp only: query_budget_usage_groups set_order_by_desc set_map set_remdups
      group_key_left_join)

lemma query_budget_usage_positive:
  assumes "r \<in> set (query_budget_usage d since)"
  shows "0 < fst (snd r)"
proof -
  from assms obtain c where "c \<in> set (budgeted d)" and "fst (snd r) = c_budget_limit c"
    unfolding set_query_budget_usage_keys by auto
  then show ?thesis by (simp add: budgeted_def)
qed

lemma set_query_budget_usage:
  assumes "distinct (map c_name (categories d))"
  shows "set (query_budget_usage d since) =
     (\<lambda>c. (c_name c, c_budget_limit c, budget_spent d since c)) ` set (budgeted d)"
proof -
  have dist: "distinct (map c_name (budgeted d))"
    unfolding budgeted_def using assms by (rule distinct_map_filter)
  have one: "coalesce (sql_sum (map (\<lambda>r. map_option t_amount (snd r))
             (concat (map (join_rows d since)
                (filter (\<lambda>x. (c_name x, c_budget_limit x) = (c_name c, c_budget_limit c))
                   (budgeted d)))))) 0 = budget_spent d since c"
    if "c \<in> set (budgeted d)" for c
    using unique_name_filter [OF dist that] by (simp add: join_rows_sum)
  show ?thesis
    unfolding set_query_budget_usage_keys image_image
    by (rule image_cong) (simp_all only: one fst_conv snd_conv)
qed

lemma left_join_remove1:
  assumes "t_category t \<notin> c_name ` set (categories d)"
  shows "left_join (d\<lparr>transactions := remove1 t (transactions d)\<rparr>) since = left_join d since"
proof -
  have "join_rows (d\<lparr>transactions := remove1 t (transactions d)\<rparr>) since c = join_rows d since c"
    if "c \<in> set (categories d)" for c
  proof -
    from that assms have "c_name c \<noteq> t_category t"
      by (metis imageI)
    then have "\<not> join_on since c t"
      by (simp add: join_on_def)
    then show ?thesis
      by (simp add: join_rows_def filter_remove1_other)
  qed
  then show ?thesis
    by (simp add: left_join_def cong: map_cong)
qed

lemma category_budget_row_of [simp]:
  "category (budget_row_of r) = fst r" "budget (budget_row_of r) = fst (snd r)"
  "spent (budget_row_of r) = snd (snd r)"
  by (cases r; simp add: budget_row_of_def Let_def)+

lemma budget_row_of_classified:
  assumes "0 < fst (snd r)"
  shows "percentage (budget_row_of r) = snd (snd r) / fst (snd r) * 100 \<and>
     (100 < percentage (budget_row_of r) \<longrightarrow> status (budget_row_of r) = ''OVER BUDGET'') \<and>
     (80 < percentage (budget_row_of r) \<and> percentage (budget_row_of r) \<le> 100
        \<longrightarrow> status (budget_row_of r) = ''NEAR LIMIT'') \<and>
     (percentage (budget_row_of r) \<le> 80 \<longrightarrow> status (budget_row_of r) = ''OK'')"
  using assms by (cases r) (simp add: budget_row_of_def Let_def)

lemma status_db_budgets:
  "check_budgets status_db demo_today =
     Inr [\<lparr>category = ''Food'', budget = 500, spent = 600, percentage = 120,
           status = ''OVER BUDGET''\<rparr>,
          \<lparr>category = ''Transport'', budget = 200, spent = 180, percentage = 90,
           status = ''NEAR LIMIT''\<rparr>,
          \<lparr>category = ''Rent'', budget = 1200, spent = 600, percentage = 50,
           status = ''OK''\<rparr>,
          \<lparr>category = ''Entertainment'', budget = 150, spent = 0, percentage = 0,
           status = ''OK''\<rparr>,
          \<lparr>category = ''Utilities'', budget = 300, spent = 0, percentage = 0,
           status = ''OK''\<rparr>,
          \<lparr>category = ''Shopping'', budget = 400, spent = 0, percentage = 0,
           status = ''OK''\<rparr>,
          \<lparr>category = ''Healthcare'', budget = 200, spent = 0, percentage = 0,
           status = ''OK''\<rparr>]"
  by (simp add: check_budgets_def query_budget_usage_def left_join_def join_rows_def
      join_on_def status_db_eval seeded_db month_start_of_def date_le_def demo_today_sel
      group_key_def sql_sum_def coalesce_def sql_div_def order_by_desc_def
      List.map_filter_def py_truediv_def Let_def)

subsection \<open>Budget status\<close>

text \<open>
  Claim C1. \<^verbatim>\<open>check_budgets\<close> always returns, and in every row of its result the
  budget is positive, \<^verbatim>\<open>percentage\<close> is \<^verbatim>\<open>spent / budget * 100\<close>, and
  \<^verbatim>\<open>status\<close> is \<^verbatim>\<open>OVER BUDGET\<close> above 100, \<^verbatim>\<open>NEAR LIMIT\<close> above 80 and up to
  100, and \<^verbatim>\<open>OK\<close> up to 80. In particular, after seeding a fresh store and adding
  the single expense of 600 in \<^verbatim>\<open>Food\<close> dated today (given explicitly or by
  default), the result has the row \<^verbatim>\<open>Food\<close>, 500, 600, 120, \<^verbatim>\<open>OVER BUDGET\<close>.
\<close>

theorem budget_status_rows:
  "(\<exists>rows. check_budgets d today = Inr rows \<and>
      (\<forall>r\<in>set rows. 0 < budget r \<and> percentage r = spent r / budget r * 100 \<and>
         (100 < percentage r \<longrightarrow> status r = ''OVER BUDGET'') \<and>
         (80 < percentage r \<and> percentage r \<le> 100 \<longrightarrow> status r = ''NEAR LIMIT'') \<and>
         (percentage r \<le> 80 \<longrightarrow> status r = ''OK''))) \<and>
   (valid_date today \<and> (dt = None \<or> dt = Some today) \<longrightarrow>
      (\<exists>rows. check_budgets
                 (fst (add_transaction (setup_database empty_db) today
                         (Some 600) (Some ''Food'') descr (Some ''expense'') dt))
                 today = Inr rows \<and>
          \<lparr>category = ''Food'', budget = 500, spent = 600, percentage = 120,
            status = ''OVER BUDGET''\<rparr> \<in> set rows))"
proof (intro conjI impI)
  show "\<exists>rows. check_budgets d today = Inr rows \<and>
      (\<forall>r\<in>set rows. 0 < budget r \<and> percentage r = spent r / budget r * 100 \<and>
         (100 < percentage r \<longrightarrow> status r = ''OVER BUDGET'') \<and>
         (80 < percentage r \<and> percentage r \<le> 100 \<longrightarrow> status r = ''NEAR LIMIT'') \<and>
         (percentage r \<le> 80 \<longrightarrow> status r = ''OK''))"
    using query_budget_usage_positive [of _ d "month_start_of today"]
      budget_row_of_classified
    by (simp add: check_budgets_eq)
next
  assume a: "valid_date today \<and> (dt = None \<or> dt = Some today)"
  let ?d = "fst (add_transaction (setup_database empty_db) today
                   (Some 600) (Some ''Food'') descr (Some ''expense'') dt)"
  let ?food = "\<lparr>c_id = 3, c_name = ''Food'', c_type = Some ''expense'', c_budget_limit = 500\<rparr>"
  from a have d: "?d = \<lparr>transactions =
        [\<lparr>t_id = 1, t_amount = 600, t_category = ''Food'', t_description = descr,
          t_type = Some ''expense'', t_date = today\<rparr>],
      categories = categories (setup_database empty_db)\<rparr>"
    by (auto simp: seeded_db add_transaction_def insert_transaction_def check_type_def
        next_id_def)
  have dist: "distinct (map c_name (categories ?d))"
    unfolding d using distinct_seeded by simp
  have food: "?food \<in> set (budgeted ?d)"
    unfolding d by (simp add: budgeted_def seeded_db)
  from a have sp: "budget_spent ?d (month_start_of today) ?food = 600"
    unfolding d by (simp add: budget_spent_def join_on_def valid_date_month_start)
  have "(''Food'', 500, 600) \<in> set (query_budget_usage ?d (month_start_of today))"
    unfolding set_query_budget_usage [OF dist] using food sp by force
  then have "budget_row_of (''Food'', 500, 600)
      \<in> set (map budget_row_of (query_budget_usage ?d (month_start_of today)))"
    by simp
  then show "\<exists>rows. check_budgets ?d today = Inr rows \<and>
          \<lparr>category = ''Food'', budget = 500, spent = 600, percentage = 120,
            status = ''OVER BUDGET''\<rparr> \<in> set rows"
    by (simp add: check_budgets_eq budget_row_of_def)
qed

theorem budget_status_rows_witness:
  "check_budgets status_db demo_today =
     Inr [\<lparr>category = ''Food'', budget = 500, spent = 600, percentage = 120,
           status = ''OVER BUDGET''\<rparr>,
          \<lparr>category = ''Transport'', budget = 200, spent = 180, percentage = 90,
           status = ''NEAR LIMIT''\<rparr>,
          \<lparr>category = ''Rent'', budget = 1200, spent = 600, percentage = 50,
           status = ''OK''\<rparr>,
          \<lparr>category = ''Entertainment'', budget = 150, spent = 0, percentage = 0,
           status = ''OK''\<rparr>,
          \<lparr>category = ''Utilities'', budget = 300, spent = 0, percentage = 0,
           status = ''OK''\<rparr>,
          \<lparr>category = ''Shopping'', budget = 400, spent = 0, percentage = 0,
           status = ''OK''\<rparr>,
          \<lparr>category = ''Healthcare'', budget = 200, spent = 0, percentage = 0,
           status = ''OK''\<rparr>] \<and>
   valid_date demo_today \<and>
   (\<exists>rows. check_budgets
              (fst (add_transaction (setup_database empty_db) demo_today
                      (Some 600) (Some ''Food'') None (Some ''expense'') None))
              demo_today = Inr rows \<and>
       \<lparr>category = ''Food'', budget = 500, spent = 600, percentage = 120,
         status = ''OVER BUDGET''\<rparr> \<in> set rows)"
proof -
  have v: "valid_date demo_today"
    by (simp add: valid_date_def demo_today_sel days_in_month_def)
  from budget_status_rows [of status_db demo_today None None] v status_db_budgets
  show ?thesis by simp
qed

text \<open>
  Claim C5. Category names being unique, as the table's \<^verbatim>\<open>UNIQUE\<close> constraint has
  them: the result of \<^verbatim>\<open>check_budgets\<close> has no row for a category whose
  \<^verbatim>\<open>budget_limit\<close> is 0 or whose type is \<^verbatim>\<open>income\<close>, and it has a row for every
  \<^verbatim>\<open>expense\<close> category with a positive \<^verbatim>\<open>budget_limit\<close>; the row's \<^verbatim>\<open>spent\<close>
  is the sum of the category's expenses dated from the first day of the current month
  on, which is 0 when there is none.
\<close>

theorem budget_status_categories:
  assumes "distinct (map c_name (categories d))"
  shows "\<exists>rows. check_budgets d today = Inr rows \<and>
     (\<forall>c\<in>set (categories d). c_budget_limit c = 0 \<or> c_type c = Some ''income''
        \<longrightarrow> c_name c \<notin> category ` set rows) \<and>
     (\<forall>c\<in>set (categories d). c_type c = Some ''expense'' \<and> 0 < c_budget_limit c
        \<longrightarrow> (\<exists>r\<in>set rows. category r = c_name c \<and> budget r = c_budget_limit c \<and>
               spent r = sum_list (map t_amount
                 (filter (\<lambda>t. t_category t = c_name c \<and> t_type t = Some ''expense'' \<and>
                              date_le (month_start_of today) (t_date t))
                    (transactions d))) \<and>
               ((\<forall>t\<in>set (transactions d).
                    \<not> (t_category t = c_name c \<and> t_type t = Some ''expense'' \<and>
                       date_le (month_start_of today) (t_date t)))
                  \<longrightarrow> spent r = 0)))"
proof -
  let ?since = "month_start_of today"
  let ?rows = "map budget_row_of (query_budget_usage d ?since)"
  have rows: "check_budgets d today = Inr ?rows"
    by (rule check_budgets_eq)
  have names: "category ` set ?rows = c_name ` set (budgeted d)"
    by (simp add: set_query_budget_usage [OF assms] image_image)
  have excl: "c_name c \<notin> category ` set ?rows"
    if c: "c \<in> set (categories d)" and no: "c_budget_limit c = 0 \<or> c_type c = Some ''income''"
    for c
  proof
    assume "c_name c \<in> category ` set ?rows"
    then obtain c' where c': "c' \<in> set (budgeted d)" and eq: "c_name c' = c_name c"
      unfolding names by auto
    from c' have "c' \<in> set (categories d)" by (simp add: budgeted_def)
    with c eq assms have "c' = c"
      by (simp add: distinct_map inj_on_def)
    with c' no show False by (auto simp: budgeted_def)
  qed
  have spent_eq: "budget_spent d ?since c = sum_list (map t_amount
        (filter (\<lambda>t. t_category t = c_name c \<and> t_type t = Some ''expense'' \<and>
                     date_le ?since (t_date t)) (transactions d)))" for c
    unfolding budget_spent_def join_on_def
    by (rule arg_cong [where f = "\<lambda>p. sum_list (map t_amount (filter p (transactions d)))"]) auto
  have incl: "\<exists>r\<in>set ?rows. category r = c_name c \<and> budget r = c_budget_limit c \<and>
       spent r = sum_list (map t_amount
         (filter (\<lambda>t. t_category t = c_name c \<and> t_type t = Some ''expense'' \<and>
                      date_le ?since (t_date t)) (transactions d))) \<and>
       ((\<forall>t\<in>set (transactions d).
            \<not> (t_category t = c_name c \<and> t_type t = Some ''expense'' \<and>
               date_le ?since (t_date t)))
          \<longrightarrow> spent r = 0)"
    if c: "c \<in> set (categories d)" and yes: "c_type c = Some ''expense'' \<and> 0 < c_budget_limit c"
    for c
  proof -
    from c yes have "c \<in> set (budgeted d)" by (simp add: budgeted_def)
    then have mem: "budget_row_of (c_name c, c_budget_limit c, budget_spent d ?since c) \<in> set ?rows"
      by (simp add: set_query_budget_usage [OF assms])
    have zero: "sum_list (map t_amount
         (filter (\<lambda>t. t_category t = c_name c \<and> t_type t = Some ''expense'' \<and>
                      date_le ?since (t_date t)) (transactions d))) = 0"
      if "\<forall>t\<in>set (transactions d).
            \<not> (t_category t = c_name c \<and> t_type t = Some ''expense'' \<and>
               date_le ?since (t_date t))"
    proof -
      from that have "filter (\<lambda>t. t_category t = c_name c \<and> t_type t = Some ''expense'' \<and>
                      date_le ?since (t_date t)) (transactions d) = []"
        by (simp add: filter_empty_conv)
      then show ?thesis by simp
    qed
    show ?thesis
      by (rule bexI [OF _ mem]) (simp add: spent_eq zero)
  qed
  from rows excl incl show ?thesis by blast
qed

theorem budget_status_categories_witness:
  "distinct (map c_name (categories status_db)) \<and>
   (\<exists>rows. check_budgets status_db demo_today = Inr rows \<and>
      ''Salary'' \<notin> category ` set rows \<and> ''Freelance'' \<notin> category ` set rows \<and>
      (\<exists>r\<in>set rows. category r = ''Healthcare'' \<and> budget r = 200 \<and> spent r = 0) \<and>
      (\<exists>r\<in>set rows. category r = ''Food'' \<and> budget r = 500 \<and> spent r = 600))"
proof -
  have dist: "distinct (map c_name (categories status_db))"
    by (simp add: status_db_eval distinct_seeded)
  from budget_status_categories [OF dist, of demo_today] dist show ?thesis
    by (simp add: status_db_budgets)
qed

subsection \<open>Ordering of the reports\<close>

lemma sorted_query_budget_usage:
  "sorted_wrt (\<lambda>a b. sql_div (snd (snd b)) (fst (snd b)) \<le> sql_div (snd (snd a)) (fst (snd a)))
     (query_budget_usage d since)"
proof -
  have key: "(\<lambda>(nm, lim_b, sp). sql_div sp lim_b) = (\<lambda>r. sql_div (snd (snd r)) (fst (snd r)))"
    by (simp add: fun_eq_iff)
  show ?thesis
    unfolding query_budget_usage_def Let_def key by (rule sorted_order_by_desc)
qed

lemma sorted_query_category_spending:
  "sorted_wrt (\<lambda>a b. fst (snd b) \<le> fst (snd a)) (query_category_spending d since)"
proof -
  have key: "(\<lambda>(c, tot, n). tot) = (\<lambda>r :: string \<times> real \<times> nat. fst (snd r))"
    by (simp add: fun_eq_iff)
  show ?thesis
    unfolding query_category_spending_def Let_def key by (rule sorted_order_by_desc)
qed

text \<open>
  Claim C7. The list \<^verbatim>\<open>get_category_spending\<close> returns is sorted by total amount,
  descending, and the list \<^verbatim>\<open>check_budgets\<close> returns is sorted by the ratio
  \<^verbatim>\<open>spent / budget_limit\<close>, descending.
\<close>

theorem reports_sorted_descending:
  "(\<forall>rows. get_category_spending d today days = Inr rows \<longrightarrow>
      sorted_wrt (\<lambda>a b. fst (snd b) \<le> fst (snd a)) rows) \<and>
   (\<exists>rows. check_budgets d today = Inr rows \<and>
      sorted_wrt (\<lambda>a b. spent b / budget b \<le> spent a / budget a) rows)"
proof (intro conjI allI impI)
  fix rows
  assume "get_category_spending d today days = Inr rows"
  then obtain start where "rows = query_category_spending d start"
    by (auto simp: get_category_spending_Inr)
  then show "sorted_wrt (\<lambda>a b. fst (snd b) \<le> fst (snd a)) rows"
    by (simp add: sorted_query_category_spending)
next
  let ?q = "query_budget_usage d (month_start_of today)"
  have "sorted_wrt (\<lambda>a b. snd (snd b) / fst (snd b) \<le> snd (snd a) / fst (snd a)) ?q"
  proof (rule sorted_wrt_mono_rel [OF _ sorted_query_budget_usage])
    fix a b
    assume "a \<in> set ?q" "b \<in> set ?q"
      and le: "sql_div (snd (snd b)) (fst (snd b)) \<le> sql_div (snd (snd a)) (fst (snd a))"
    then have "0 < fst (snd a)" "0 < fst (snd b)"
      by (simp_all add: query_budget_usage_positive)
    with le show "snd (snd b) / fst (snd b) \<le> snd (snd a) / fst (snd a)"
      by (simp add: sql_div_def)
  qed
  then have "sorted_wrt (\<lambda>a b. spent b / budget b \<le> spent a / budget a) (map budget_row_of ?q)"
    by (simp add: sorted_wrt_map)
  then show "\<exists>rows. check_budgets d today = Inr rows \<and>
      sorted_wrt (\<lambda>a b. spent b / budget b \<le> spent a / budget a) rows"
    by (simp add: check_budgets_eq)
qed

theorem reports_sorted_descending_witness:
  "(\<exists>rows. get_category_spending window_db demo_today 30 = Inr rows \<and>
      map (\<lambda>r. fst (snd r)) rows = [80, 60] \<and>
      sorted_wrt (\<lambda>a b. fst (snd b) \<le> fst (snd a)) rows) \<and>
   (\<exists>rows. check_budgets status_db demo_today = Inr rows \<and>
      map (\<lambda>r. spent r / budget r) rows = [6 / 5, 9 / 10, 1 / 2, 0, 0, 0, 0] \<and>
      sorted_wrt (\<lambda>a b. spent b / budget b \<le> spent a / budget a) rows)"
  using reports_sorted_descending [of window_db demo_today 30]
    reports_sorted_descending [of status_db demo_today 30]
  by (simp add: window_db_spending status_db_budgets)

subsection \<open>Transactions of a category that is not in the table\<close>

text \<open>
  Claim C9. An expense whose category is the name of no row of \<^verbatim>\<open>categories\<close> is
  counted like any other in the two reports that do not join on the category: dated in
  the current month, it is one of the rows whose sum is the \<^verbatim>\<open>expense\<close> total of
  \<^verbatim>\<open>get_monthly_summary\<close> (a finite total is its amount plus the total of the
  others); dated \<open>today - days\<close> or later, it is in the row of its category in
  \<^verbatim>\<open>get_category_spending(days)\<close>, whose total is its amount plus the others'.
  \<^verbatim>\<open>check_budgets\<close> has no row of its category and returns the same list with and
  without it.
\<close>

theorem unseeded_category_expense:
  assumes "t \<in> set (transactions d)"
    and "t_type t = Some ''expense''"
    and "t_category t \<notin> c_name ` set (categories d)"
  shows "(year_month (t_date t) = year_month today \<longrightarrow>
      t \<in> set (month_rows d today ''expense'') \<and>
      (month_sum d today ''income'' \<noteq> NaN \<and> month_sum d today ''expense'' \<noteq> NaN \<longrightarrow>
         (\<exists>s. get_monthly_summary d today = Inr s)) \<and>
      (\<forall>s. get_monthly_summary d today = Inr s \<longrightarrow>
         s (Some ''expense'') = Some (Some (month_sum d today ''expense''))) \<and>
      (\<forall>x. month_sum d today ''expense'' = Fin x \<longrightarrow>
         x = t_amount t +
             month_total (d\<lparr>transactions := remove1 t (transactions d)\<rparr>) today ''expense'')) \<and>
     (\<forall>start. date_minus_days today days = Inr start \<and> date_le start (t_date t) \<longrightarrow>
        (\<exists>rows. get_category_spending d today days = Inr rows \<and>
           (t_category t,
            t_amount t +
              sum_list (map t_amount (remove1 t (spending_rows d start (t_category t)))),
            Suc (length (remove1 t (spending_rows d start (t_category t))))) \<in> set rows)) \<and>
     (\<exists>rows. check_budgets d today = Inr rows \<and>
        t_category t \<notin> category ` set rows \<and>
        check_budgets (d\<lparr>transactions := remove1 t (transactions d)\<rparr>) today = Inr rows)"
proof (intro conjI allI impI)
  assume m: "year_month (t_date t) = year_month today"
  with assms(1,2) show "t \<in> set (month_rows d today ''expense'')"
    by (simp add: month_rows_def)
next
  assume "month_sum d today ''income'' \<noteq> NaN \<and> month_sum d today ''expense'' \<noteq> NaN"
  then show "\<exists>s. get_monthly_summary d today = Inr s"
    by (simp add: get_monthly_summary_eq sql_double_Some)
next
  fix s
  assume "get_monthly_summary d today = Inr s"
  then show "s (Some ''expense'') = Some (Some (month_sum d today ''expense''))"
    by (auto simp: get_monthly_summary_eq month_lookup sql_double_def
        split: option.splits pyfloat.splits)
next
  fix x
  assume m: "year_month (t_date t) = year_month today"
    and "month_sum d today ''expense'' = Fin x"
  then have "x = month_total d today ''expense''"
    by (simp add: month_sum_Fin)
  also from m assms(1,2) have "\<dots> =
      t_amount t + month_total (d\<lparr>transactions := remove1 t (transactions d)\<rparr>) today ''expense''"
    unfolding month_total_def by (simp add: sum_filter_remove1)
  finally show "x = t_amount t +
      month_total (d\<lparr>transactions := remove1 t (transactions d)\<rparr>) today ''expense''" .
next
  fix start
  assume "date_minus_days today days = Inr start \<and> date_le start (t_date t)"
  then show "\<exists>rows. get_category_spending d today days = Inr rows \<and>
           (t_category t,
            t_amount t +
              sum_list (map t_amount (remove1 t (spending_rows d start (t_category t)))),
            Suc (length (remove1 t (spending_rows d start (t_category t))))) \<in> set rows"
    using spending_row_includes [OF assms(1,2), of start]
    by (simp add: get_category_spending_def)
next
  let ?since = "month_start_of today"
  let ?rows = "map budget_row_of (query_budget_usage d ?since)"
  have same: "query_budget_usage (d\<lparr>transactions := remove1 t (transactions d)\<rparr>) ?since =
      query_budget_usage d ?since"
    by (simp add: query_budget_usage_def left_join_remove1 [OF assms(3)])
  have "category ` set ?rows \<subseteq> c_name ` set (categories d)"
    by (auto simp: set_query_budget_usage_keys budgeted_def)
  with assms(3) have "t_category t \<notin> category ` set ?rows" by blast
  then show "\<exists>rows. check_budgets d today = Inr rows \<and>
        t_category t \<notin> category ` set rows \<and>
        check_budgets (d\<lparr>transactions := remove1 t (transactions d)\<rparr>) today = Inr rows"
    by (simp add: check_budgets_eq same)
qed

theorem unseeded_category_expense_witness:
  "pets_txn \<in> set (month_rows pets_db demo_today ''expense'') \<and>
   (\<exists>s. get_monthly_summary pets_db demo_today = Inr s \<and>
      s (Some ''expense'') = Some (Some (Fin 50))) \<and>
   (\<exists>rows. get_category_spending pets_db demo_today 30 = Inr rows \<and>
      (''Pets'', 50, 1) \<in> set rows) \<and>
   (\<exists>rows. check_budgets pets_db demo_today = Inr rows \<and>
      ''Pets'' \<notin> category ` set rows \<and>
      check_budgets (setup_database empty_db) demo_today = Inr rows)"
proof -
  have prem: "pets_txn \<in> set (transactions pets_db)" "t_type pets_txn = Some ''expense''"
    "t_category pets_txn \<notin> c_name ` set (categories pets_db)"
    by (simp_all add: pets_db_eval pets_txn_def seeded_db)
  have ym: "year_month (t_date pets_txn) = year_month demo_today"
    by (simp add: pets_txn_def)
  have le: "date_le \<lparr>year = 2024, month = 5, day = 16\<rparr> (t_date pets_txn)"
    by (simp add: pets_txn_def date_le_def demo_today_sel)
  obtain s where ret: "get_monthly_summary pets_db demo_today = Inr s"
    by (simp add: get_monthly_summary_eq month_sum_pets sql_double_def)
  have rest: "pets_db\<lparr>transactions := remove1 pets_txn (transactions pets_db)\<rparr> =
      setup_database empty_db"
    by (simp add: pets_db_eval seeded_db)
  have alone: "spending_rows pets_db \<lparr>year = 2024, month = 5, day = 16\<rparr> ''Pets'' = [pets_txn]"
    using le by (simp add: spending_rows_def pets_db_eval date_le_iff) (simp add: pets_txn_def)
  note th = unseeded_category_expense [OF prem, of demo_today 30]
  from th ym have "pets_txn \<in> set (month_rows pets_db demo_today ''expense'')"
    by blast
  moreover from th ym ret have "s (Some ''expense'') = Some (Some (Fin 50))"
    by (simp add: month_sum_pets)
  moreover from th demo_start le obtain rows where
    "get_category_spending pets_db demo_today 30 = Inr rows"
    "(t_category pets_txn,
      t_amount pets_txn + sum_list (map t_amount (remove1 pets_txn
        (spending_rows pets_db \<lparr>year = 2024, month = 5, day = 16\<rparr> (t_category pets_txn)))),
      Suc (length (remove1 pets_txn
        (spending_rows pets_db \<lparr>year = 2024, month = 5, day = 16\<rparr> (t_category pets_txn)))))
     \<in> set rows"
    by blast
  then have "\<exists>rows. get_category_spending pets_db demo_today 30 = Inr rows \<and>
      (''Pets'', 50, 1) \<in> set rows"
    using alone by (simp add: pets_txn_def)
  moreover from th have "\<exists>rows. check_budgets pets_db demo_today = Inr rows \<and>
      ''Pets'' \<notin> category ` set rows \<and>
      check_budgets (setup_database empty_db) demo_today = Inr rows"
    unfolding rest by (simp add: pets_txn_def)
  ultimately show ?thesis using ret by blast
qed

end
